theory Spec2Isabelle
  imports Complex_Main
begin

section \<open>Values, requests and responses\<close>

text \<open>
  The server (\<^verbatim>\<open>src/server.js\<close>) is an Express application: forty-five route
  registrations, each an \<^verbatim>\<open>async (req, res)\<close> handler around one Firestore
  collection. A handler is modelled as a function from the request data it reads and
  the store to the response it sends and the store it leaves. Requests are handled one
  at a time: the interleaving of two handlers at their \<^verbatim>\<open>await\<close> points is not
  modelled.

  A JavaScript value as \<^verbatim>\<open>bodyParser.json()\<close> can produce it, with \<^verbatim>\<open>undefined\<close>
  for a property that is not there. A number carries the finite value \<^verbatim>\<open>JSON.parse\<close>
  read (a double is a rational; a literal that overflows to \<^verbatim>\<open>Infinity\<close> is outside the
  model). A string is its UTF-8 byte sequence; the handlers only ever ask whether it
  is empty. An object is the list of its properties, in insertion order, with
  distinct keys.
\<close>

datatype jsval =
    JUndefined
  | JNull
  | JBool bool
  | JNum rat
  | JStr string
  | JArr "jsval list"
  | JObj "(string \<times> jsval) list"

type_synonym obj = "(string \<times> jsval) list"

text \<open>\<^verbatim>\<open>const { k } = o\<close>: the property, or \<^verbatim>\<open>undefined\<close>.\<close>

definition property :: "obj \<Rightarrow> string \<Rightarrow> jsval" where
  "property ob k = (case map_of ob k of None \<Rightarrow> JUndefined | Some v \<Rightarrow> v)"

text \<open>ToBoolean, as \<^verbatim>\<open>!x\<close> applies it.\<close>

fun truthy :: "jsval \<Rightarrow> bool" where
  "truthy JUndefined = False"
| "truthy JNull = False"
| "truthy (JBool b) = b"
| "truthy (JNum n) = (n \<noteq> 0)"
| "truthy (JStr s) = (s \<noteq> [])"
| "truthy (JArr xs) = True"
| "truthy (JObj ps) = True"

text \<open>
  What a request brings with it from outside the handler's text: the clock that
  \<^verbatim>\<open>new Date().toISOString()\<close> reads, the identifier the store will give to the next
  added document, which calls to the store fail (connectivity, or a value the store
  refuses), and ECMAScript's ToNumber on strings, arrays and objects, which the
  relational operators apply and which is taken as given (\<open>None\<close> is \<^verbatim>\<open>NaN\<close>).
\<close>

datatype store_call =
    CallGet string string
  | CallAdd string obj
  | CallUpdate string string obj
  | CallDelete string string

record env =
  now :: string
  new_id :: string
  store_fails :: "store_call \<Rightarrow> bool"
  coerce :: "jsval \<Rightarrow> rat option"

fun to_number :: "env \<Rightarrow> jsval \<Rightarrow> rat option" where
  "to_number e JUndefined = None"
| "to_number e JNull = Some 0"
| "to_number e (JBool b) = Some (if b then 1 else 0)"
| "to_number e (JNum n) = Some n"
| "to_number e (JStr s) = coerce e (JStr s)"
| "to_number e (JArr xs) = coerce e (JArr xs)"
| "to_number e (JObj ps) = coerce e (JObj ps)"

text \<open>\<^verbatim>\<open>x < k\<close> and \<^verbatim>\<open>x > k\<close> against a number literal: false when \<^verbatim>\<open>x\<close> is \<^verbatim>\<open>NaN\<close>.\<close>

definition js_lt :: "env \<Rightarrow> jsval \<Rightarrow> rat \<Rightarrow> bool" where
  "js_lt e v k = (case to_number e v of None \<Rightarrow> False | Some n \<Rightarrow> n < k)"

definition js_gt :: "env \<Rightarrow> jsval \<Rightarrow> rat \<Rightarrow> bool" where
  "js_gt e v k = (case to_number e v of None \<Rightarrow> False | Some n \<Rightarrow> n > k)"

text \<open>
  A property whose value is \<^verbatim>\<open>undefined\<close> is not part of what is serialised:
  \<^verbatim>\<open>JSON.stringify\<close> leaves it out, and so does a store that accepts the object.
\<close>

definition defined_props :: "obj \<Rightarrow> obj" where
  "defined_props ob = filter (\<lambda>p. snd p \<noteq> JUndefined) ob"

text \<open>Setting one property keeps the position of a key that is already there.\<close>

fun set_prop :: "string \<Rightarrow> jsval \<Rightarrow> obj \<Rightarrow> obj" where
  "set_prop k v [] = [(k, v)]"
| "set_prop k v (p # ps) = (if fst p = k then (k, v) # ps else p # set_prop k v ps)"

text \<open>\<^verbatim>\<open>{ ...a, ...b }\<close>: the properties of \<open>b\<close> written over \<open>a\<close>, left to right.\<close>

fun spread :: "obj \<Rightarrow> obj \<Rightarrow> obj" where
  "spread a [] = a"
| "spread a (p # ps) = spread (set_prop (fst p) (snd p) a) ps"

datatype reply = Json obj | Text string

record response =
  status :: nat
  content :: reply

text \<open>\<^verbatim>\<open>res.status(st).json(ob)\<close> and \<^verbatim>\<open>res.send(text)\<close> (status 200).\<close>

definition json :: "nat \<Rightarrow> obj \<Rightarrow> response" where
  "json st ob = \<lparr>status = st, content = Json (defined_props ob)\<rparr>"

definition send :: "string \<Rightarrow> response" where
  "send t = \<lparr>status = 200, content = Text t\<rparr>"

definition mensaje :: "string \<Rightarrow> obj" where
  "mensaje m = [(''mensaje'', JStr m)]"

text \<open>The accented letters of the source's message literals, in UTF-8.\<close>

definition a_acute :: string where "a_acute = [CHR 0xC3, CHR 0xA1]"
definition e_acute :: string where "e_acute = [CHR 0xC3, CHR 0xA9]"
definition i_acute :: string where "i_acute = [CHR 0xC3, CHR 0xAD]"
definition o_acute :: string where "o_acute = [CHR 0xC3, CHR 0xB3]"
definition n_tilde :: string where "n_tilde = [CHR 0xC3, CHR 0xB1]"

text \<open>Every \<^verbatim>\<open>catch\<close> block sends the same response.\<close>

definition internal_error :: response where
  "internal_error = json 500 (mensaje ''Error interno del servidor.'')"

section \<open>The document store\<close>

text \<open>
  Modelled from the spec: the module \<^verbatim>\<open>./firebase\<close>, which builds the Firestore handle
  \<^verbatim>\<open>db\<close>, is not among the sources. The spec gives the store four operations per named
  collection (get by id, insert, merge update, delete), each atomic, each able to fail
  with a store error; an inserted document gets its identifier from the store; a merge
  update changes only the named fields of an existing document and leaves all other
  stored fields untouched. A store is a family of collections, each a finite map from
  identifiers to documents. An object literal such as \<^verbatim>\<open>{ nombre, correo, rol }\<close>
  always has all its keys; a key whose variable is \<^verbatim>\<open>undefined\<close> names no value, and
  a store that accepts the call writes the others (one that refuses it fails the call,
  which is \<open>store_fails\<close>).
\<close>

type_synonym db = "string \<Rightarrow> string \<Rightarrow> obj option"

datatype store_error = StoreError

text \<open>
  Modelled from the spec: get by id, the \<^verbatim>\<open>db.collection(c).doc(i).get()\<close> of the
  handle that \<^verbatim>\<open>./firebase\<close> builds. \<open>None\<close> is a snapshot whose \<^verbatim>\<open>exists\<close> is false.
\<close>

definition doc_get :: "env \<Rightarrow> db \<Rightarrow> string \<Rightarrow> string \<Rightarrow> store_error + obj option" where
  "doc_get e s c i = (if store_fails e (CallGet c i) then Inl StoreError else Inr (s c i))"

text \<open>
  Modelled from the spec: insert, the \<^verbatim>\<open>db.collection(c).add(d)\<close> of the handle that
  \<^verbatim>\<open>./firebase\<close> builds. The store assigns the identifier; the result is the reference's
  \<^verbatim>\<open>id\<close> and the store after the insertion.
\<close>

definition coll_add :: "env \<Rightarrow> db \<Rightarrow> string \<Rightarrow> obj \<Rightarrow> store_error + (string \<times> db)" where
  "coll_add e s c d =
     (if store_fails e (CallAdd c d) then Inl StoreError
      else Inr (new_id e, s(c := (s c)(new_id e \<mapsto> defined_props d))))"

text \<open>
  Modelled from the spec: merge update, the \<^verbatim>\<open>ref.update(d)\<close> of the handle that
  \<^verbatim>\<open>./firebase\<close> builds. Only the named fields change. It fails on a document that is not
  there.
\<close>

definition doc_update :: "env \<Rightarrow> db \<Rightarrow> string \<Rightarrow> string \<Rightarrow> obj \<Rightarrow> store_error + db" where
  "doc_update e s c i d =
     (if store_fails e (CallUpdate c i d) then Inl StoreError
      else case s c i of
             None \<Rightarrow> Inl StoreError
           | Some old \<Rightarrow> Inr (s(c := (s c)(i \<mapsto> spread old (defined_props d)))))"

text \<open>
  Modelled from the spec: delete, the \<^verbatim>\<open>ref.delete()\<close> of the handle that
  \<^verbatim>\<open>./firebase\<close> builds.
\<close>

definition doc_delete :: "env \<Rightarrow> db \<Rightarrow> string \<Rightarrow> string \<Rightarrow> store_error + db" where
  "doc_delete e s c i =
     (if store_fails e (CallDelete c i) then Inl StoreError
      else Inr (s(c := (s c)(i := None))))"

section \<open>The handlers\<close>

text \<open>
  One definition per registration of \<^verbatim>\<open>src/server.js\<close>, in the order of the file and
  named by method and path; the second group registered on \<^verbatim>\<open>/pagos\<close> carries the
  suffix 2. Each follows its handler line by line: the destructuring of
  \<^verbatim>\<open>req.body\<close>, the checks in the source's order, the call to the store, and the
  \<^verbatim>\<open>catch\<close> block as the \<open>Inl\<close> branch of every call.
\<close>

definition get_root :: response where
  "get_root = send (''Bienvenido a la API de la rentadora de m'' @ a_acute @ ''quinas'')"

definition post_usuarios :: "env \<Rightarrow> obj \<Rightarrow> db \<Rightarrow> response \<times> db" where
  "post_usuarios e body s =
     (let nombre = property body ''nombre''; correo = property body ''correo''; rol = property body ''rol'' in
      if \<not> truthy nombre \<or> \<not> truthy correo \<or> \<not> truthy rol
      then (json 400 (mensaje ''Faltan datos obligatorios: nombre, correo y rol.''), s)
      else
        let nuevoUsuario = [(''nombre'', nombre), (''correo'', correo), (''rol'', rol), (''fechaRegistro'', JStr (now e))] in
        case coll_add e s ''usuarios'' nuevoUsuario of
          Inl error \<Rightarrow> (internal_error, s)
        | Inr (docRef_id, s') \<Rightarrow> (json 201 (spread [(''id'', JStr docRef_id)] nuevoUsuario), s'))"

definition get_usuarios :: "env \<Rightarrow> string \<Rightarrow> db \<Rightarrow> response \<times> db" where
  "get_usuarios e did s =
     (case doc_get e s ''usuarios'' did of
        Inl error \<Rightarrow> (internal_error, s)
      | Inr None \<Rightarrow> (json 404 (mensaje ''Usuario no encontrado.''), s)
      | Inr (Some data) \<Rightarrow> (json 200 (spread [(''id'', JStr did)] data), s))"

definition put_usuarios :: "env \<Rightarrow> string \<Rightarrow> obj \<Rightarrow> db \<Rightarrow> response \<times> db" where
  "put_usuarios e did body s =
     (let nombre = property body ''nombre''; correo = property body ''correo''; rol = property body ''rol'' in
      case doc_get e s ''usuarios'' did of
        Inl error \<Rightarrow> (internal_error, s)
      | Inr None \<Rightarrow> (json 404 (mensaje ''Usuario no encontrado.''), s)
      | Inr (Some data) \<Rightarrow>
          (case doc_update e s ''usuarios'' did [(''nombre'', nombre), (''correo'', correo), (''rol'', rol)] of
             Inl error \<Rightarrow> (internal_error, s)
           | Inr s' \<Rightarrow> (json 200 (mensaje (''Usuario actualizado con '' @ e_acute @ ''xito'')), s')))"

definition delete_usuarios :: "env \<Rightarrow> string \<Rightarrow> db \<Rightarrow> response \<times> db" where
  "delete_usuarios e did s =
     (case doc_get e s ''usuarios'' did of
        Inl error \<Rightarrow> (internal_error, s)
      | Inr None \<Rightarrow> (json 404 (mensaje ''Usuario no encontrado.''), s)
      | Inr (Some data) \<Rightarrow>
          (case doc_delete e s ''usuarios'' did of
             Inl error \<Rightarrow> (internal_error, s)
           | Inr s' \<Rightarrow> (json 200 (mensaje (''Usuario eliminado con '' @ e_acute @ ''xito'')), s')))"

definition post_maquinas :: "env \<Rightarrow> obj \<Rightarrow> db \<Rightarrow> response \<times> db" where
  "post_maquinas e body s =
     (let nombre = property body ''nombre''; descripcion = property body ''descripcion''; precio = property body ''precio''; distribuidor = property body ''distribuidor'' in
      if \<not> truthy nombre \<or> \<not> truthy descripcion \<or> \<not> truthy precio \<or> \<not> truthy distribuidor
      then (json 400 (mensaje (''Faltan datos obligatorios: nombre, descripci'' @ o_acute @ ''n, precio y distribuidor.'')), s)
      else
        let nuevaMaquina = [(''nombre'', nombre), (''descripcion'', descripcion), (''precio'', precio), (''distribuidor'', distribuidor)] in
        case coll_add e s ''maquinas'' nuevaMaquina of
          Inl error \<Rightarrow> (internal_error, s)
        | Inr (docRef_id, s') \<Rightarrow> (json 201 (spread [(''id'', JStr docRef_id)] nuevaMaquina), s'))"

definition get_maquinas :: "env \<Rightarrow> string \<Rightarrow> db \<Rightarrow> response \<times> db" where
  "get_maquinas e did s =
     (case doc_get e s ''maquinas'' did of
        Inl error \<Rightarrow> (internal_error, s)
      | Inr None \<Rightarrow> (json 404 (mensaje (''M'' @ a_acute @ ''quina no encontrada.'')), s)
      | Inr (Some data) \<Rightarrow> (json 200 (spread [(''id'', JStr did)] data), s))"

definition put_maquinas :: "env \<Rightarrow> string \<Rightarrow> obj \<Rightarrow> db \<Rightarrow> response \<times> db" where
  "put_maquinas e did body s =
     (let nombre = property body ''nombre''; descripcion = property body ''descripcion''; precio = property body ''precio''; distribuidor = property body ''distribuidor'' in
      case doc_get e s ''maquinas'' did of
        Inl error \<Rightarrow> (internal_error, s)
      | Inr None \<Rightarrow> (json 404 (mensaje (''M'' @ a_acute @ ''quina no encontrada.'')), s)
      | Inr (Some data) \<Rightarrow>
          (case doc_update e s ''maquinas'' did [(''nombre'', nombre), (''descripcion'', descripcion), (''precio'', precio), (''distribuidor'', distribuidor)] of
             Inl error \<Rightarrow> (internal_error, s)
           | Inr s' \<Rightarrow> (json 200 (mensaje (''M'' @ a_acute @ ''quina actualizada con '' @ e_acute @ ''xito'')), s')))"

definition delete_maquinas :: "env \<Rightarrow> string \<Rightarrow> db \<Rightarrow> response \<times> db" where
  "delete_maquinas e did s =
     (case doc_get e s ''maquinas'' did of
        Inl error \<Rightarrow> (internal_error, s)
      | Inr None \<Rightarrow> (json 404 (mensaje (''M'' @ a_acute @ ''quina no encontrada.'')), s)
      | Inr (Some data) \<Rightarrow>
          (case doc_delete e s ''maquinas'' did of
             Inl error \<Rightarrow> (internal_error, s)
           | Inr s' \<Rightarrow> (json 200 (mensaje (''M'' @ a_acute @ ''quina eliminada con '' @ e_acute @ ''xito'')), s')))"

definition post_alquileres :: "env \<Rightarrow> obj \<Rightarrow> db \<Rightarrow> response \<times> db" where
  "post_alquileres e body s =
     (let usuario = property body ''usuario''; maquina = property body ''maquina''; fecha_inicio = property body ''fecha_inicio''; fecha_fin = property body ''fecha_fin''; estado = property body ''estado'' in
      if \<not> truthy usuario \<or> \<not> truthy maquina \<or> \<not> truthy fecha_inicio \<or> \<not> truthy fecha_fin \<or> \<not> truthy estado
      then (json 400 (mensaje (''Faltan datos obligatorios: usuario, m'' @ a_acute @ ''quina, fecha_inicio, fecha_fin, estado.'')), s)
      else
        let nuevoAlquiler = [(''usuario'', usuario), (''maquina'', maquina), (''fecha_inicio'', fecha_inicio), (''fecha_fin'', fecha_fin), (''estado'', estado)] in
        case coll_add e s ''alquileres'' nuevoAlquiler of
          Inl error \<Rightarrow> (internal_error, s)
        | Inr (docRef_id, s') \<Rightarrow> (json 201 (spread [(''id'', JStr docRef_id)] nuevoAlquiler), s'))"

definition get_alquileres :: "env \<Rightarrow> string \<Rightarrow> db \<Rightarrow> response \<times> db" where
  "get_alquileres e did s =
     (case doc_get e s ''alquileres'' did of
        Inl error \<Rightarrow> (internal_error, s)
      | Inr None \<Rightarrow> (json 404 (mensaje ''Alquiler no encontrado.''), s)
      | Inr (Some data) \<Rightarrow> (json 200 (spread [(''id'', JStr did)] data), s))"

definition put_alquileres :: "env \<Rightarrow> string \<Rightarrow> obj \<Rightarrow> db \<Rightarrow> response \<times> db" where
  "put_alquileres e did body s =
     (let usuario = property body ''usuario''; maquina = property body ''maquina''; fecha_inicio = property body ''fecha_inicio''; fecha_fin = property body ''fecha_fin''; estado = property body ''estado'' in
      case doc_get e s ''alquileres'' did of
        Inl error \<Rightarrow> (internal_error, s)
      | Inr None \<Rightarrow> (json 404 (mensaje ''Alquiler no encontrado.''), s)
      | Inr (Some data) \<Rightarrow>
          (case doc_update e s ''alquileres'' did [(''usuario'', usuario), (''maquina'', maquina), (''fecha_inicio'', fecha_inicio), (''fecha_fin'', fecha_fin), (''estado'', estado)] of
             Inl error \<Rightarrow> (internal_error, s)
           | Inr s' \<Rightarrow> (json 200 (mensaje (''Alquiler actualizado con '' @ e_acute @ ''xito'')), s')))"

definition delete_alquileres :: "env \<Rightarrow> string \<Rightarrow> db \<Rightarrow> response \<times> db" where
  "delete_alquileres e did s =
     (case doc_get e s ''alquileres'' did of
        Inl error \<Rightarrow> (internal_error, s)
      | Inr None \<Rightarrow> (json 404 (mensaje ''Alquiler no encontrado.''), s)
      | Inr (Some data) \<Rightarrow>
          (case doc_delete e s ''alquileres'' did of
             Inl error \<Rightarrow> (internal_error, s)
           | Inr s' \<Rightarrow> (json 200 (mensaje (''Alquiler eliminado con '' @ e_acute @ ''xito'')), s')))"

definition post_pagos :: "env \<Rightarrow> obj \<Rightarrow> db \<Rightarrow> response \<times> db" where
  "post_pagos e body s =
     (let alquilerId = property body ''alquilerId''; monto = property body ''monto''; metodo = property body ''metodo''; fecha_pago = property body ''fecha_pago'' in
      if \<not> truthy alquilerId \<or> \<not> truthy monto \<or> \<not> truthy metodo \<or> \<not> truthy fecha_pago
      then (json 400 (mensaje ''Faltan datos obligatorios: alquilerId, monto, metodo, fecha_pago.''), s)
      else
        let nuevoPago = [(''alquilerId'', alquilerId), (''monto'', monto), (''metodo'', metodo), (''fecha_pago'', fecha_pago)] in
        case coll_add e s ''pagos'' nuevoPago of
          Inl error \<Rightarrow> (internal_error, s)
        | Inr (docRef_id, s') \<Rightarrow> (json 201 (spread [(''id'', JStr docRef_id)] nuevoPago), s'))"

definition get_pagos :: "env \<Rightarrow> string \<Rightarrow> db \<Rightarrow> response \<times> db" where
  "get_pagos e did s =
     (case doc_get e s ''pagos'' did of
        Inl error \<Rightarrow> (internal_error, s)
      | Inr None \<Rightarrow> (json 404 (mensaje ''Pago no encontrado.''), s)
      | Inr (Some data) \<Rightarrow> (json 200 (spread [(''id'', JStr did)] data), s))"

definition put_pagos :: "env \<Rightarrow> string \<Rightarrow> obj \<Rightarrow> db \<Rightarrow> response \<times> db" where
  "put_pagos e did body s =
     (let alquilerId = property body ''alquilerId''; monto = property body ''monto''; metodo = property body ''metodo''; fecha_pago = property body ''fecha_pago'' in
      case doc_get e s ''pagos'' did of
        Inl error \<Rightarrow> (internal_error, s)
      | Inr None \<Rightarrow> (json 404 (mensaje ''Pago no encontrado.''), s)
      | Inr (Some data) \<Rightarrow>
          (case doc_update e s ''pagos'' did [(''alquilerId'', alquilerId), (''monto'', monto), (''metodo'', metodo), (''fecha_pago'', fecha_pago)] of
             Inl error \<Rightarrow> (internal_error, s)
           | Inr s' \<Rightarrow> (json 200 (mensaje (''Pago actualizado con '' @ e_acute @ ''xito'')), s')))"

definition delete_pagos :: "env \<Rightarrow> string \<Rightarrow> db \<Rightarrow> response \<times> db" where
  "delete_pagos e did s =
     (case doc_get e s ''pagos'' did of
        Inl error \<Rightarrow> (internal_error, s)
      | Inr None \<Rightarrow> (json 404 (mensaje ''Pago no encontrado.''), s)
      | Inr (Some data) \<Rightarrow>
          (case doc_delete e s ''pagos'' did of
             Inl error \<Rightarrow> (internal_error, s)
           | Inr s' \<Rightarrow> (json 200 (mensaje (''Pago eliminado con '' @ e_acute @ ''xito'')), s')))"

definition post_distribuidores :: "env \<Rightarrow> obj \<Rightarrow> db \<Rightarrow> response \<times> db" where
  "post_distribuidores e body s =
     (let nombre = property body ''nombre''; correo = property body ''correo''; telefono = property body ''telefono''; direccion = property body ''direccion'' in
      if \<not> truthy nombre \<or> \<not> truthy correo \<or> \<not> truthy telefono \<or> \<not> truthy direccion
      then (json 400 (mensaje ''Faltan datos obligatorios: nombre, correo, telefono, direccion.''), s)
      else
        let nuevoDistribuidor = [(''nombre'', nombre), (''correo'', correo), (''telefono'', telefono), (''direccion'', direccion)] in
        case coll_add e s ''distribuidores'' nuevoDistribuidor of
          Inl error \<Rightarrow> (internal_error, s)
        | Inr (docRef_id, s') \<Rightarrow> (json 201 (spread [(''id'', JStr docRef_id)] nuevoDistribuidor), s'))"

definition get_distribuidores :: "env \<Rightarrow> string \<Rightarrow> db \<Rightarrow> response \<times> db" where
  "get_distribuidores e did s =
     (case doc_get e s ''distribuidores'' did of
        Inl error \<Rightarrow> (internal_error, s)
      | Inr None \<Rightarrow> (json 404 (mensaje ''Distribuidor no encontrado.''), s)
      | Inr (Some data) \<Rightarrow> (json 200 (spread [(''id'', JStr did)] data), s))"

definition put_distribuidores :: "env \<Rightarrow> string \<Rightarrow> obj \<Rightarrow> db \<Rightarrow> response \<times> db" where
  "put_distribuidores e did body s =
     (let nombre = property body ''nombre''; correo = property body ''correo''; telefono = property body ''telefono''; direccion = property body ''direccion'' in
      case doc_get e s ''distribuidores'' did of
        Inl error \<Rightarrow> (internal_error, s)
      | Inr None \<Rightarrow> (json 404 (mensaje ''Distribuidor no encontrado.''), s)
      | Inr (Some data) \<Rightarrow>
          (case doc_update e s ''distribuidores'' did [(''nombre'', nombre), (''correo'', correo), (''telefono'', telefono), (''direccion'', direccion)] of
             Inl error \<Rightarrow> (internal_error, s)
           | Inr s' \<Rightarrow> (json 200 (mensaje (''Distribuidor actualizado con '' @ e_acute @ ''xito'')), s')))"

definition delete_distribuidores :: "env \<Rightarrow> string \<Rightarrow> db \<Rightarrow> response \<times> db" where
  "delete_distribuidores e did s =
     (case doc_get e s ''distribuidores'' did of
        Inl error \<Rightarrow> (internal_error, s)
      | Inr None \<Rightarrow> (json 404 (mensaje ''Distribuidor no encontrado.''), s)
      | Inr (Some data) \<Rightarrow>
          (case doc_delete e s ''distribuidores'' did of
             Inl error \<Rightarrow> (internal_error, s)
           | Inr s' \<Rightarrow> (json 200 (mensaje (''Distribuidor eliminado con '' @ e_acute @ ''xito'')), s')))"

definition post_resenas :: "env \<Rightarrow> obj \<Rightarrow> db \<Rightarrow> response \<times> db" where
  "post_resenas e body s =
     (let usuarioId = property body ''usuarioId''; productoId = property body ''productoId''; calificacion = property body ''calificacion''; comentario = property body ''comentario'' in
      if \<not> truthy usuarioId \<or> \<not> truthy productoId \<or> \<not> truthy calificacion \<or> comentario = JUndefined
      then (json 400 (mensaje ''Faltan datos obligatorios: usuarioId, productoId, calificacion, comentario.''), s)
      else if js_lt e calificacion 1 \<or> js_gt e calificacion 5
      then (json 400 (mensaje (''La calificaci'' @ o_acute @ ''n debe estar entre 1 y 5.'')), s)
      else
        let nuevaResena = [(''usuarioId'', usuarioId), (''productoId'', productoId), (''calificacion'', calificacion), (''comentario'', comentario)] in
        case coll_add e s ''resenas'' nuevaResena of
          Inl error \<Rightarrow> (internal_error, s)
        | Inr (docRef_id, s') \<Rightarrow> (json 201 (spread [(''id'', JStr docRef_id)] nuevaResena), s'))"

definition get_resenas :: "env \<Rightarrow> string \<Rightarrow> db \<Rightarrow> response \<times> db" where
  "get_resenas e did s =
     (case doc_get e s ''resenas'' did of
        Inl error \<Rightarrow> (internal_error, s)
      | Inr None \<Rightarrow> (json 404 (mensaje (''Rese'' @ n_tilde @ ''a no encontrada.'')), s)
      | Inr (Some data) \<Rightarrow> (json 200 (spread [(''id'', JStr did)] data), s))"

definition put_resenas :: "env \<Rightarrow> string \<Rightarrow> obj \<Rightarrow> db \<Rightarrow> response \<times> db" where
  "put_resenas e did body s =
     (let usuarioId = property body ''usuarioId''; productoId = property body ''productoId''; calificacion = property body ''calificacion''; comentario = property body ''comentario'' in
      case doc_get e s ''resenas'' did of
        Inl error \<Rightarrow> (internal_error, s)
      | Inr None \<Rightarrow> (json 404 (mensaje (''Rese'' @ n_tilde @ ''a no encontrada.'')), s)
      | Inr (Some data) \<Rightarrow>
          if js_lt e calificacion 1 \<or> js_gt e calificacion 5
          then (json 400 (mensaje (''La calificaci'' @ o_acute @ ''n debe estar entre 1 y 5.'')), s)
          else
            (case doc_update e s ''resenas'' did [(''usuarioId'', usuarioId), (''productoId'', productoId), (''calificacion'', calificacion), (''comentario'', comentario)] of
               Inl error \<Rightarrow> (internal_error, s)
             | Inr s' \<Rightarrow> (json 200 (mensaje (''Rese'' @ n_tilde @ ''a actualizada con '' @ e_acute @ ''xito'')), s')))"

definition delete_resenas :: "env \<Rightarrow> string \<Rightarrow> db \<Rightarrow> response \<times> db" where
  "delete_resenas e did s =
     (case doc_get e s ''resenas'' did of
        Inl error \<Rightarrow> (internal_error, s)
      | Inr None \<Rightarrow> (json 404 (mensaje (''Rese'' @ n_tilde @ ''a no encontrada.'')), s)
      | Inr (Some data) \<Rightarrow>
          (case doc_delete e s ''resenas'' did of
             Inl error \<Rightarrow> (internal_error, s)
           | Inr s' \<Rightarrow> (json 200 (mensaje (''Rese'' @ n_tilde @ ''a eliminada con '' @ e_acute @ ''xito'')), s')))"

definition post_categorias :: "env \<Rightarrow> obj \<Rightarrow> db \<Rightarrow> response \<times> db" where
  "post_categorias e body s =
     (let nombre = property body ''nombre''; descripcion = property body ''descripcion'' in
      if \<not> truthy nombre \<or> \<not> truthy descripcion
      then (json 400 (mensaje ''Faltan datos obligatorios: nombre, descripcion.''), s)
      else
        let nuevaCategoria = [(''nombre'', nombre), (''descripcion'', descripcion)] in
        case coll_add e s ''categorias'' nuevaCategoria of
          Inl error \<Rightarrow> (internal_error, s)
        | Inr (docRef_id, s') \<Rightarrow> (json 201 (spread [(''id'', JStr docRef_id)] nuevaCategoria), s'))"

definition get_categorias :: "env \<Rightarrow> string \<Rightarrow> db \<Rightarrow> response \<times> db" where
  "get_categorias e did s =
     (case doc_get e s ''categorias'' did of
        Inl error \<Rightarrow> (internal_error, s)
      | Inr None \<Rightarrow> (json 404 (mensaje (''Categor'' @ i_acute @ ''a no encontrada.'')), s)
      | Inr (Some data) \<Rightarrow> (json 200 (spread [(''id'', JStr did)] data), s))"

definition put_categorias :: "env \<Rightarrow> string \<Rightarrow> obj \<Rightarrow> db \<Rightarrow> response \<times> db" where
  "put_categorias e did body s =
     (let nombre = property body ''nombre''; descripcion = property body ''descripcion'' in
      case doc_get e s ''categorias'' did of
        Inl error \<Rightarrow> (internal_error, s)
      | Inr None \<Rightarrow> (json 404 (mensaje (''Categor'' @ i_acute @ ''a no encontrada.'')), s)
      | Inr (Some data) \<Rightarrow>
          (case doc_update e s ''categorias'' did [(''nombre'', nombre), (''descripcion'', descripcion)] of
             Inl error \<Rightarrow> (internal_error, s)
           | Inr s' \<Rightarrow> (json 200 (mensaje (''Categor'' @ i_acute @ ''a actualizada con '' @ e_acute @ ''xito'')), s')))"

definition delete_categorias :: "env \<Rightarrow> string \<Rightarrow> db \<Rightarrow> response \<times> db" where
  "delete_categorias e did s =
     (case doc_get e s ''categorias'' did of
        Inl error \<Rightarrow> (internal_error, s)
      | Inr None \<Rightarrow> (json 404 (mensaje (''Categor'' @ i_acute @ ''a no encontrada.'')), s)
      | Inr (Some data) \<Rightarrow>
          (case doc_delete e s ''categorias'' did of
             Inl error \<Rightarrow> (internal_error, s)
           | Inr s' \<Rightarrow> (json 200 (mensaje (''Categor'' @ i_acute @ ''a eliminada con '' @ e_acute @ ''xito'')), s')))"

definition post_ubicaciones :: "env \<Rightarrow> obj \<Rightarrow> db \<Rightarrow> response \<times> db" where
  "post_ubicaciones e body s =
     (let nombre = property body ''nombre''; direccion = property body ''direccion''; latitud = property body ''latitud''; longitud = property body ''longitud'' in
      if \<not> truthy nombre \<or> \<not> truthy direccion \<or> latitud = JUndefined \<or> longitud = JUndefined
      then (json 400 (mensaje ''Faltan datos obligatorios: nombre, direccion, latitud, longitud.''), s)
      else
        let nuevaUbicacion = [(''nombre'', nombre), (''direccion'', direccion), (''latitud'', latitud), (''longitud'', longitud)] in
        case coll_add e s ''ubicaciones'' nuevaUbicacion of
          Inl error \<Rightarrow> (internal_error, s)
        | Inr (docRef_id, s') \<Rightarrow> (json 201 (spread [(''id'', JStr docRef_id)] nuevaUbicacion), s'))"

definition get_ubicaciones :: "env \<Rightarrow> string \<Rightarrow> db \<Rightarrow> response \<times> db" where
  "get_ubicaciones e did s =
     (case doc_get e s ''ubicaciones'' did of
        Inl error \<Rightarrow> (internal_error, s)
      | Inr None \<Rightarrow> (json 404 (mensaje (''Ubicaci'' @ o_acute @ ''n no encontrada.'')), s)
      | Inr (Some data) \<Rightarrow> (json 200 (spread [(''id'', JStr did)] data), s))"

definition put_ubicaciones :: "env \<Rightarrow> string \<Rightarrow> obj \<Rightarrow> db \<Rightarrow> response \<times> db" where
  "put_ubicaciones e did body s =
     (let nombre = property body ''nombre''; direccion = property body ''direccion''; latitud = property body ''latitud''; longitud = property body ''longitud'' in
      case doc_get e s ''ubicaciones'' did of
        Inl error \<Rightarrow> (internal_error, s)
      | Inr None \<Rightarrow> (json 404 (mensaje (''Ubicaci'' @ o_acute @ ''n no encontrada.'')), s)
      | Inr (Some data) \<Rightarrow>
          (case doc_update e s ''ubicaciones'' did [(''nombre'', nombre), (''direccion'', direccion), (''latitud'', latitud), (''longitud'', longitud)] of
             Inl error \<Rightarrow> (internal_error, s)
           | Inr s' \<Rightarrow> (json 200 (mensaje (''Ubicaci'' @ o_acute @ ''n actualizada con '' @ e_acute @ ''xito'')), s')))"

definition delete_ubicaciones :: "env \<Rightarrow> string \<Rightarrow> db \<Rightarrow> response \<times> db" where
  "delete_ubicaciones e did s =
     (case doc_get e s ''ubicaciones'' did of
        Inl error \<Rightarrow> (internal_error, s)
      | Inr None \<Rightarrow> (json 404 (mensaje (''Ubicaci'' @ o_acute @ ''n no encontrada.'')), s)
      | Inr (Some data) \<Rightarrow>
          (case doc_delete e s ''ubicaciones'' did of
             Inl error \<Rightarrow> (internal_error, s)
           | Inr s' \<Rightarrow> (json 200 (mensaje (''Ubicaci'' @ o_acute @ ''n eliminada con '' @ e_acute @ ''xito'')), s')))"

definition post_pagos2 :: "env \<Rightarrow> obj \<Rightarrow> db \<Rightarrow> response \<times> db" where
  "post_pagos2 e body s =
     (let usuarioId = property body ''usuarioId''; monto = property body ''monto''; fecha = property body ''fecha''; metodo = property body ''metodo'' in
      if \<not> truthy usuarioId \<or> \<not> truthy monto \<or> \<not> truthy fecha \<or> \<not> truthy metodo
      then (json 400 (mensaje ''Faltan datos obligatorios: usuarioId, monto, fecha, metodo.''), s)
      else
        let nuevoPago = [(''usuarioId'', usuarioId), (''monto'', monto), (''fecha'', fecha), (''metodo'', metodo)] in
        case coll_add e s ''pagos'' nuevoPago of
          Inl error \<Rightarrow> (internal_error, s)
        | Inr (docRef_id, s') \<Rightarrow> (json 201 (spread [(''id'', JStr docRef_id)] nuevoPago), s'))"

definition get_pagos2 :: "env \<Rightarrow> string \<Rightarrow> db \<Rightarrow> response \<times> db" where
  "get_pagos2 e did s =
     (case doc_get e s ''pagos'' did of
        Inl error \<Rightarrow> (internal_error, s)
      | Inr None \<Rightarrow> (json 404 (mensaje ''Pago no encontrado.''), s)
      | Inr (Some data) \<Rightarrow> (json 200 (spread [(''id'', JStr did)] data), s))"

definition put_pagos2 :: "env \<Rightarrow> string \<Rightarrow> obj \<Rightarrow> db \<Rightarrow> response \<times> db" where
  "put_pagos2 e did body s =
     (let usuarioId = property body ''usuarioId''; monto = property body ''monto''; fecha = property body ''fecha''; metodo = property body ''metodo'' in
      case doc_get e s ''pagos'' did of
        Inl error \<Rightarrow> (internal_error, s)
      | Inr None \<Rightarrow> (json 404 (mensaje ''Pago no encontrado.''), s)
      | Inr (Some data) \<Rightarrow>
          (case doc_update e s ''pagos'' did [(''usuarioId'', usuarioId), (''monto'', monto), (''fecha'', fecha), (''metodo'', metodo)] of
             Inl error \<Rightarrow> (internal_error, s)
           | Inr s' \<Rightarrow> (json 200 (mensaje (''Pago actualizado con '' @ e_acute @ ''xito'')), s')))"

definition delete_pagos2 :: "env \<Rightarrow> string \<Rightarrow> db \<Rightarrow> response \<times> db" where
  "delete_pagos2 e did s =
     (case doc_get e s ''pagos'' did of
        Inl error \<Rightarrow> (internal_error, s)
      | Inr None \<Rightarrow> (json 404 (mensaje ''Pago no encontrado.''), s)
      | Inr (Some data) \<Rightarrow>
          (case doc_delete e s ''pagos'' did of
             Inl error \<Rightarrow> (internal_error, s)
           | Inr s' \<Rightarrow> (json 200 (mensaje (''Pago eliminado con '' @ e_acute @ ''xito'')), s')))"

definition post_soporte :: "env \<Rightarrow> obj \<Rightarrow> db \<Rightarrow> response \<times> db" where
  "post_soporte e body s =
     (let usuarioId = property body ''usuarioId''; descripcion = property body ''descripcion''; fecha = property body ''fecha''; estado = property body ''estado'' in
      if \<not> truthy usuarioId \<or> \<not> truthy descripcion \<or> \<not> truthy fecha \<or> \<not> truthy estado
      then (json 400 (mensaje ''Faltan datos obligatorios: usuarioId, descripcion, fecha, estado.''), s)
      else
        let nuevaSolicitud = [(''usuarioId'', usuarioId), (''descripcion'', descripcion), (''fecha'', fecha), (''estado'', estado)] in
        case coll_add e s ''soporte'' nuevaSolicitud of
          Inl error \<Rightarrow> (internal_error, s)
        | Inr (docRef_id, s') \<Rightarrow> (json 201 (spread [(''id'', JStr docRef_id)] nuevaSolicitud), s'))"

definition get_soporte :: "env \<Rightarrow> string \<Rightarrow> db \<Rightarrow> response \<times> db" where
  "get_soporte e did s =
     (case doc_get e s ''soporte'' did of
        Inl error \<Rightarrow> (internal_error, s)
      | Inr None \<Rightarrow> (json 404 (mensaje ''Solicitud de soporte no encontrada.''), s)
      | Inr (Some data) \<Rightarrow> (json 200 (spread [(''id'', JStr did)] data), s))"

definition put_soporte :: "env \<Rightarrow> string \<Rightarrow> obj \<Rightarrow> db \<Rightarrow> response \<times> db" where
  "put_soporte e did body s =
     (let usuarioId = property body ''usuarioId''; descripcion = property body ''descripcion''; fecha = property body ''fecha''; estado = property body ''estado'' in
      case doc_get e s ''soporte'' did of
        Inl error \<Rightarrow> (internal_error, s)
      | Inr None \<Rightarrow> (json 404 (mensaje ''Solicitud de soporte no encontrada.''), s)
      | Inr (Some data) \<Rightarrow>
          (case doc_update e s ''soporte'' did [(''usuarioId'', usuarioId), (''descripcion'', descripcion), (''fecha'', fecha), (''estado'', estado)] of
             Inl error \<Rightarrow> (internal_error, s)
           | Inr s' \<Rightarrow> (json 200 (mensaje (''Solicitud actualizada con '' @ e_acute @ ''xito'')), s')))"

definition delete_soporte :: "env \<Rightarrow> string \<Rightarrow> db \<Rightarrow> response \<times> db" where
  "delete_soporte e did s =
     (case doc_get e s ''soporte'' did of
        Inl error \<Rightarrow> (internal_error, s)
      | Inr None \<Rightarrow> (json 404 (mensaje ''Solicitud de soporte no encontrada.''), s)
      | Inr (Some data) \<Rightarrow>
          (case doc_delete e s ''soporte'' did of
             Inl error \<Rightarrow> (internal_error, s)
           | Inr s' \<Rightarrow> (json 200 (mensaje (''Solicitud eliminada con '' @ e_acute @ ''xito'')), s')))"

definition post_trabajadores :: "env \<Rightarrow> obj \<Rightarrow> db \<Rightarrow> response \<times> db" where
  "post_trabajadores e body s =
     (let nombre = property body ''nombre''; puesto = property body ''puesto''; salario = property body ''salario''; fechaContratacion = property body ''fechaContratacion'' in
      if \<not> truthy nombre \<or> \<not> truthy puesto \<or> \<not> truthy salario \<or> \<not> truthy fechaContratacion
      then (json 400 (mensaje ''Faltan datos obligatorios: nombre, puesto, salario, fechaContratacion.''), s)
      else
        let nuevoTrabajador = [(''nombre'', nombre), (''puesto'', puesto), (''salario'', salario), (''fechaContratacion'', fechaContratacion)] in
        case coll_add e s ''trabajadores'' nuevoTrabajador of
          Inl error \<Rightarrow> (internal_error, s)
        | Inr (docRef_id, s') \<Rightarrow> (json 201 (spread [(''id'', JStr docRef_id)] nuevoTrabajador), s'))"

definition get_trabajadores :: "env \<Rightarrow> string \<Rightarrow> db \<Rightarrow> response \<times> db" where
  "get_trabajadores e did s =
     (case doc_get e s ''trabajadores'' did of
        Inl error \<Rightarrow> (internal_error, s)
      | Inr None \<Rightarrow> (json 404 (mensaje ''Trabajador no encontrado.''), s)
      | Inr (Some data) \<Rightarrow> (json 200 (spread [(''id'', JStr did)] data), s))"

definition put_trabajadores :: "env \<Rightarrow> string \<Rightarrow> obj \<Rightarrow> db \<Rightarrow> response \<times> db" where
  "put_trabajadores e did body s =
     (let nombre = property body ''nombre''; puesto = property body ''puesto''; salario = property body ''salario''; fechaContratacion = property body ''fechaContratacion'' in
      case doc_get e s ''trabajadores'' did of
        Inl error \<Rightarrow> (internal_error, s)
      | Inr None \<Rightarrow> (json 404 (mensaje ''Trabajador no encontrado.''), s)
      | Inr (Some data) \<Rightarrow>
          (case doc_update e s ''trabajadores'' did [(''nombre'', nombre), (''puesto'', puesto), (''salario'', salario), (''fechaContratacion'', fechaContratacion)] of
             Inl error \<Rightarrow> (internal_error, s)
           | Inr s' \<Rightarrow> (json 200 (mensaje (''Trabajador actualizado con '' @ e_acute @ ''xito'')), s')))"

definition delete_trabajadores :: "env \<Rightarrow> string \<Rightarrow> db \<Rightarrow> response \<times> db" where
  "delete_trabajadores e did s =
     (case doc_get e s ''trabajadores'' did of
        Inl error \<Rightarrow> (internal_error, s)
      | Inr None \<Rightarrow> (json 404 (mensaje ''Trabajador no encontrado.''), s)
      | Inr (Some data) \<Rightarrow>
          (case doc_delete e s ''trabajadores'' did of
             Inl error \<Rightarrow> (internal_error, s)
           | Inr s' \<Rightarrow> (json 200 (mensaje (''Trabajador eliminado con '' @ e_acute @ ''xito'')), s')))"

section \<open>Routing\<close>

text \<open>
  Express keeps the registrations in the order of the calls to \<^verbatim>\<open>app.get\<close>,
  \<^verbatim>\<open>app.post\<close>, \<^verbatim>\<open>app.put\<close> and \<^verbatim>\<open>app.delete\<close> and runs the first one whose method
  and path match the request; none of the handlers calls \<^verbatim>\<open>next\<close>, so no later
  registration runs. A request's path is the list of its segments; \<^verbatim>\<open>:id\<close> takes a
  whole segment. A name is compared as it is written: that Express, by default, also
  matches a path in another letter case or with a trailing slash is not modelled. The registrations have three shapes: the root, \<^verbatim>\<open>"/name"\<close> and
  \<^verbatim>\<open>"/name/:id"\<close>. The middleware registered before them is not modelled: a request
  carries the object that \<^verbatim>\<open>bodyParser.json()\<close> left in \<^verbatim>\<open>req.body\<close>, and the
  documentation pages of \<^verbatim>\<open>./swagger\<close> are on paths of their own.
\<close>

datatype http_method = GET | POST | PUT | DELETE

record request =
  verb :: http_method
  path :: "string list"
  body :: obj

datatype route =
    On_root http_method "env \<Rightarrow> db \<Rightarrow> response \<times> db"
  | On_collection http_method string "env \<Rightarrow> obj \<Rightarrow> db \<Rightarrow> response \<times> db"
  | On_item http_method string "env \<Rightarrow> string \<Rightarrow> obj \<Rightarrow> db \<Rightarrow> response \<times> db"

text \<open>The response of one registration to a request, when it matches.\<close>

fun try_route :: "route \<Rightarrow> env \<Rightarrow> request \<Rightarrow> db \<Rightarrow> (response \<times> db) option" where
  "try_route (On_root m h) e req s =
     (if verb req = m \<and> path req = [] then Some (h e s) else None)"
| "try_route (On_collection m name h) e req s =
     (if verb req = m \<and> path req = [name] then Some (h e (body req) s) else None)"
| "try_route (On_item m name h) e req s =
     (case path req of
        [name', did] \<Rightarrow> if verb req = m \<and> name' = name then Some (h e did (body req) s) else None
      | _ \<Rightarrow> None)"

fun matches :: "route \<Rightarrow> request \<Rightarrow> bool" where
  "matches (On_root m h) req = (verb req = m \<and> path req = [])"
| "matches (On_collection m name h) req = (verb req = m \<and> path req = [name])"
| "matches (On_item m name h) req =
     (case path req of [name', did] \<Rightarrow> verb req = m \<and> name' = name | _ \<Rightarrow> False)"

text \<open>The position of the registration that serves a request: the first that matches.\<close>

fun first_match :: "route list \<Rightarrow> request \<Rightarrow> nat option" where
  "first_match [] req = None"
| "first_match (r # rs) req =
     (if matches r req then Some 0 else map_option Suc (first_match rs req))"

text \<open>\<open>None\<close>: no registration matches, and Express answers with its own 404 page.\<close>

fun dispatch :: "route list \<Rightarrow> env \<Rightarrow> request \<Rightarrow> db \<Rightarrow> (response \<times> db) option" where
  "dispatch [] e req s = None"
| "dispatch (r # rs) e req s =
     (case try_route r e req s of Some out \<Rightarrow> Some out | None \<Rightarrow> dispatch rs e req s)"

text \<open>The registrations of \<^verbatim>\<open>src/server.js\<close>, in the order of the file.\<close>

definition routes :: "route list" where
  "routes =
    [On_root GET (\<lambda>e s. (get_root, s)),
     On_collection POST ''usuarios'' post_usuarios,
     On_item GET ''usuarios'' (\<lambda>e did body. get_usuarios e did),
     On_item PUT ''usuarios'' put_usuarios,
     On_item DELETE ''usuarios'' (\<lambda>e did body. delete_usuarios e did),
     On_collection POST ''maquinas'' post_maquinas,
     On_item GET ''maquinas'' (\<lambda>e did body. get_maquinas e did),
     On_item PUT ''maquinas'' put_maquinas,
     On_item DELETE ''maquinas'' (\<lambda>e did body. delete_maquinas e did),
     On_collection POST ''alquileres'' post_alquileres,
     On_item GET ''alquileres'' (\<lambda>e did body. get_alquileres e did),
     On_item PUT ''alquileres'' put_alquileres,
     On_item DELETE ''alquileres'' (\<lambda>e did body. delete_alquileres e did),
     On_collection POST ''pagos'' post_pagos,
     On_item GET ''pagos'' (\<lambda>e did body. get_pagos e did),
     On_item PUT ''pagos'' put_pagos,
     On_item DELETE ''pagos'' (\<lambda>e did body. delete_pagos e did),
     On_collection POST ''distribuidores'' post_distribuidores,
     On_item GET ''distribuidores'' (\<lambda>e did body. get_distribuidores e did),
     On_item PUT ''distribuidores'' put_distribuidores,
     On_item DELETE ''distribuidores'' (\<lambda>e did body. delete_distribuidores e did),
     On_collection POST ''resenas'' post_resenas,
     On_item GET ''resenas'' (\<lambda>e did body. get_resenas e did),
     On_item PUT ''resenas'' put_resenas,
     On_item DELETE ''resenas'' (\<lambda>e did body. delete_resenas e did),
     On_collection POST ''categorias'' post_categorias,
     On_item GET ''categorias'' (\<lambda>e did body. get_categorias e did),
     On_item PUT ''categorias'' put_categorias,
     On_item DELETE ''categorias'' (\<lambda>e did body. delete_categorias e did),
     On_collection POST ''ubicaciones'' post_ubicaciones,
     On_item GET ''ubicaciones'' (\<lambda>e did body. get_ubicaciones e did),
     On_item PUT ''ubicaciones'' put_ubicaciones,
     On_item DELETE ''ubicaciones'' (\<lambda>e did body. delete_ubicaciones e did),
     On_collection POST ''pagos'' post_pagos2,
     On_item GET ''pagos'' (\<lambda>e did body. get_pagos2 e did),
     On_item PUT ''pagos'' put_pagos2,
     On_item DELETE ''pagos'' (\<lambda>e did body. delete_pagos2 e did),
     On_collection POST ''soporte'' post_soporte,
     On_item GET ''soporte'' (\<lambda>e did body. get_soporte e did),
     On_item PUT ''soporte'' put_soporte,
     On_item DELETE ''soporte'' (\<lambda>e did body. delete_soporte e did),
     On_collection POST ''trabajadores'' post_trabajadores,
     On_item GET ''trabajadores'' (\<lambda>e did body. get_trabajadores e did),
     On_item PUT ''trabajadores'' put_trabajadores,
     On_item DELETE ''trabajadores'' (\<lambda>e did body. delete_trabajadores e did)]"

text \<open>The server: one request against the store.\<close>

definition serve :: "env \<Rightarrow> request \<Rightarrow> db \<Rightarrow> (response \<times> db) option" where
  "serve e req s = dispatch routes e req s"

section \<open>The four operations of a resource\<close>

text \<open>
  The ten resources, each named by its collection, which is also its path. The
  operations of a resource are what the server does with the four requests on that
  path.
\<close>

datatype resource =
    Usuarios | Maquinas | Alquileres | Pagos | Distribuidores
  | Resenas | Categorias | Ubicaciones | Soporte | Trabajadores

fun collection :: "resource \<Rightarrow> string" where
  "collection Usuarios = ''usuarios''"
| "collection Maquinas = ''maquinas''"
| "collection Alquileres = ''alquileres''"
| "collection Pagos = ''pagos''"
| "collection Distribuidores = ''distribuidores''"
| "collection Resenas = ''resenas''"
| "collection Categorias = ''categorias''"
| "collection Ubicaciones = ''ubicaciones''"
| "collection Soporte = ''soporte''"
| "collection Trabajadores = ''trabajadores''"

definition Create :: "resource \<Rightarrow> env \<Rightarrow> obj \<Rightarrow> db \<Rightarrow> (response \<times> db) option" where
  "Create R e payload s = serve e \<lparr>verb = POST, path = [collection R], body = payload\<rparr> s"

definition Read :: "resource \<Rightarrow> env \<Rightarrow> string \<Rightarrow> db \<Rightarrow> (response \<times> db) option" where
  "Read R e did s = serve e \<lparr>verb = GET, path = [collection R, did], body = []\<rparr> s"

definition Update :: "resource \<Rightarrow> env \<Rightarrow> string \<Rightarrow> obj \<Rightarrow> db \<Rightarrow> (response \<times> db) option" where
  "Update R e did payload s = serve e \<lparr>verb = PUT, path = [collection R, did], body = payload\<rparr> s"

definition Delete :: "resource \<Rightarrow> env \<Rightarrow> string \<Rightarrow> db \<Rightarrow> (response \<times> db) option" where
  "Delete R e did s = serve e \<lparr>verb = DELETE, path = [collection R, did], body = []\<rparr> s"

text \<open>The properties the handlers of a resource read from \<^verbatim>\<open>req.body\<close>.\<close>

fun fields :: "resource \<Rightarrow> string list" where
  "fields Usuarios = [''nombre'', ''correo'', ''rol'']"
| "fields Maquinas = [''nombre'', ''descripcion'', ''precio'', ''distribuidor'']"
| "fields Alquileres = [''usuario'', ''maquina'', ''fecha_inicio'', ''fecha_fin'', ''estado'']"
| "fields Pagos = [''alquilerId'', ''monto'', ''metodo'', ''fecha_pago'']"
| "fields Distribuidores = [''nombre'', ''correo'', ''telefono'', ''direccion'']"
| "fields Resenas = [''usuarioId'', ''productoId'', ''calificacion'', ''comentario'']"
| "fields Categorias = [''nombre'', ''descripcion'']"
| "fields Ubicaciones = [''nombre'', ''direccion'', ''latitud'', ''longitud'']"
| "fields Soporte = [''usuarioId'', ''descripcion'', ''fecha'', ''estado'']"
| "fields Trabajadores = [''nombre'', ''puesto'', ''salario'', ''fechaContratacion'']"

text \<open>The message of the 400 response to a creation with a field missing.\<close>

fun missing_message :: "resource \<Rightarrow> string" where
  "missing_message Usuarios = ''Faltan datos obligatorios: nombre, correo y rol.''"
| "missing_message Maquinas = (''Faltan datos obligatorios: nombre, descripci'' @ o_acute @ ''n, precio y distribuidor.'')"
| "missing_message Alquileres = (''Faltan datos obligatorios: usuario, m'' @ a_acute @ ''quina, fecha_inicio, fecha_fin, estado.'')"
| "missing_message Pagos = ''Faltan datos obligatorios: alquilerId, monto, metodo, fecha_pago.''"
| "missing_message Distribuidores = ''Faltan datos obligatorios: nombre, correo, telefono, direccion.''"
| "missing_message Resenas = ''Faltan datos obligatorios: usuarioId, productoId, calificacion, comentario.''"
| "missing_message Categorias = ''Faltan datos obligatorios: nombre, descripcion.''"
| "missing_message Ubicaciones = ''Faltan datos obligatorios: nombre, direccion, latitud, longitud.''"
| "missing_message Soporte = ''Faltan datos obligatorios: usuarioId, descripcion, fecha, estado.''"
| "missing_message Trabajadores = ''Faltan datos obligatorios: nombre, puesto, salario, fechaContratacion.''"

text \<open>The message of the 404 response.\<close>

fun not_found_message :: "resource \<Rightarrow> string" where
  "not_found_message Usuarios = ''Usuario no encontrado.''"
| "not_found_message Maquinas = (''M'' @ a_acute @ ''quina no encontrada.'')"
| "not_found_message Alquileres = ''Alquiler no encontrado.''"
| "not_found_message Pagos = ''Pago no encontrado.''"
| "not_found_message Distribuidores = ''Distribuidor no encontrado.''"
| "not_found_message Resenas = (''Rese'' @ n_tilde @ ''a no encontrada.'')"
| "not_found_message Categorias = (''Categor'' @ i_acute @ ''a no encontrada.'')"
| "not_found_message Ubicaciones = (''Ubicaci'' @ o_acute @ ''n no encontrada.'')"
| "not_found_message Soporte = ''Solicitud de soporte no encontrada.''"
| "not_found_message Trabajadores = ''Trabajador no encontrado.''"

text \<open>The message of the 200 response to an update.\<close>

fun updated_message :: "resource \<Rightarrow> string" where
  "updated_message Usuarios = (''Usuario actualizado con '' @ e_acute @ ''xito'')"
| "updated_message Maquinas = (''M'' @ a_acute @ ''quina actualizada con '' @ e_acute @ ''xito'')"
| "updated_message Alquileres = (''Alquiler actualizado con '' @ e_acute @ ''xito'')"
| "updated_message Pagos = (''Pago actualizado con '' @ e_acute @ ''xito'')"
| "updated_message Distribuidores = (''Distribuidor actualizado con '' @ e_acute @ ''xito'')"
| "updated_message Resenas = (''Rese'' @ n_tilde @ ''a actualizada con '' @ e_acute @ ''xito'')"
| "updated_message Categorias = (''Categor'' @ i_acute @ ''a actualizada con '' @ e_acute @ ''xito'')"
| "updated_message Ubicaciones = (''Ubicaci'' @ o_acute @ ''n actualizada con '' @ e_acute @ ''xito'')"
| "updated_message Soporte = (''Solicitud actualizada con '' @ e_acute @ ''xito'')"
| "updated_message Trabajadores = (''Trabajador actualizado con '' @ e_acute @ ''xito'')"

text \<open>The message of the 200 response to a deletion.\<close>

fun deleted_message :: "resource \<Rightarrow> string" where
  "deleted_message Usuarios = (''Usuario eliminado con '' @ e_acute @ ''xito'')"
| "deleted_message Maquinas = (''M'' @ a_acute @ ''quina eliminada con '' @ e_acute @ ''xito'')"
| "deleted_message Alquileres = (''Alquiler eliminado con '' @ e_acute @ ''xito'')"
| "deleted_message Pagos = (''Pago eliminado con '' @ e_acute @ ''xito'')"
| "deleted_message Distribuidores = (''Distribuidor eliminado con '' @ e_acute @ ''xito'')"
| "deleted_message Resenas = (''Rese'' @ n_tilde @ ''a eliminada con '' @ e_acute @ ''xito'')"
| "deleted_message Categorias = (''Categor'' @ i_acute @ ''a eliminada con '' @ e_acute @ ''xito'')"
| "deleted_message Ubicaciones = (''Ubicaci'' @ o_acute @ ''n eliminada con '' @ e_acute @ ''xito'')"
| "deleted_message Soporte = (''Solicitud eliminada con '' @ e_acute @ ''xito'')"
| "deleted_message Trabajadores = (''Trabajador eliminado con '' @ e_acute @ ''xito'')"

text \<open>The object literal \<^verbatim>\<open>{ k1, k2, ... }\<close> over the destructured properties.\<close>

definition pick :: "string list \<Rightarrow> obj \<Rightarrow> obj" where
  "pick ks payload = map (\<lambda>k. (k, property payload k)) ks"

text \<open>
  The document a creation hands to the store: the fields of the resource as the
  payload has them and, for a user, the time of the registration.
\<close>

definition new_document :: "resource \<Rightarrow> env \<Rightarrow> obj \<Rightarrow> obj" where
  "new_document R e payload =
     pick (fields R) payload @ (if R = Usuarios then [(''fechaRegistro'', JStr (now e))] else [])"

text \<open>The range check of the review handlers: \<^verbatim>\<open>calificacion < 1 || calificacion > 5\<close>.\<close>

definition rating_refused :: "env \<Rightarrow> obj \<Rightarrow> bool" where
  "rating_refused e payload =
     (js_lt e (property payload ''calificacion'') 1 \<or> js_gt e (property payload ''calificacion'') 5)"

definition range_message :: string where
  "range_message = ''La calificaci'' @ o_acute @ ''n debe estar entre 1 y 5.''"

text \<open>
  The fields a creation compares with \<^verbatim>\<open>undefined\<close> instead of testing for
  truthiness: the coordinates of a location and the comment of a review.
\<close>

definition checked_for_undefined :: "resource \<Rightarrow> string \<Rightarrow> bool" where
  "checked_for_undefined R k =
     (R = Ubicaciones \<and> (k = ''latitud'' \<or> k = ''longitud'') \<or> R = Resenas \<and> k = ''comentario'')"

definition missing :: "resource \<Rightarrow> obj \<Rightarrow> string \<Rightarrow> bool" where
  "missing R payload k =
     (if checked_for_undefined R k then property payload k = JUndefined
      else \<not> truthy (property payload k))"

section \<open>Example inputs\<close>

text \<open>A request during which the store answers every call, and a store with no documents.\<close>

definition quiet :: env where
  "quiet = \<lparr>now = ''2024-05-01T12:00:00.000Z'', new_id = ''doc1'',
            store_fails = (\<lambda>c. False), coerce = (\<lambda>v. None)\<rparr>"

definition no_docs :: db where
  "no_docs = (\<lambda>c i. None)"

text \<open>The payload of the spec's example scenario, and the document its creation stores.\<close>

definition ana :: obj where
  "ana = [(''nombre'', JStr ''Ana''), (''correo'', JStr ''ana@x.com''), (''rol'', JStr ''admin'')]"

definition ana_doc :: obj where
  "ana_doc = ana @ [(''fechaRegistro'', JStr ''2024-05-01T12:00:00.000Z'')]"

text \<open>A review with a given rating.\<close>

definition resena :: "rat \<Rightarrow> obj" where
  "resena r = [(''usuarioId'', JStr ''u1''), (''productoId'', JStr ''p1''),
               (''calificacion'', JNum r), (''comentario'', JStr ''Buen servicio'')]"

text \<open>A machine and a location, with the price and the coordinates left open.\<close>

definition excavadora :: "jsval \<Rightarrow> obj" where
  "excavadora precio =
     [(''nombre'', JStr ''Excavadora''), (''descripcion'', JStr ''Oruga''), (''precio'', precio),
      (''distribuidor'', JObj [(''id'', JStr ''d1''), (''nombre'', JStr ''Cat'')])]"

definition bodega :: "jsval \<Rightarrow> jsval \<Rightarrow> obj" where
  "bodega latitud longitud =
     [(''nombre'', JStr ''Bodega''), (''direccion'', JStr ''Calle 1''),
      (''latitud'', latitud), (''longitud'', longitud)]"

text \<open>Stores with one document: the user of the example, and a review rated 3.\<close>

definition one_user :: db where
  "one_user = no_docs(''usuarios'' := (no_docs ''usuarios'')(''doc1'' \<mapsto> ana_doc))"

definition one_review :: db where
  "one_review = no_docs(''resenas'' := (no_docs ''resenas'')(''doc1'' \<mapsto> resena 3))"

text \<open>A payment in the shape of the second registration of \<^verbatim>\<open>/pagos\<close>.\<close>

definition pago_de_usuario :: obj where
  "pago_de_usuario =
     [(''usuarioId'', JStr ''u1''), (''monto'', JNum 100), (''fecha'', JStr ''2024-05-01''),
      (''metodo'', JStr ''tarjeta'')]"

section \<open>Objects\<close>

lemma truthy_defined: "truthy v \<Longrightarrow> v \<noteq> JUndefined"
  by (cases v) simp_all

lemma defined_props_all: "(\<And>p. p \<in> set ob \<Longrightarrow> snd p \<noteq> JUndefined) \<Longrightarrow> defined_props ob = ob"
  by (simp add: defined_props_def)

lemma map_of_set_prop: "map_of (set_prop k v ps) = (map_of ps)(k \<mapsto> v)"
  by (induction ps) (auto simp: fun_eq_iff)

lemma property_set_prop: "property (set_prop k v ps) k' = (if k' = k then v else property ps k')"
  by (simp add: property_def map_of_set_prop)

lemma property_spread:
  "property (spread a b) k = (case map_of (rev b) k of None \<Rightarrow> property a k | Some v \<Rightarrow> v)"
proof (induction b arbitrary: a)
  case Nil
  then show ?case by simp
next
  case (Cons p ps)
  show ?case
    by (cases p) (simp add: Cons.IH property_set_prop map_add_def split: option.splits)
qed

lemma set_prop_new: "k \<notin> fst ` set ps \<Longrightarrow> set_prop k v ps = ps @ [(k, v)]"
  by (induction ps) auto

lemma spread_append: "distinct (map fst (a @ b)) \<Longrightarrow> spread a b = a @ b"
proof (induction b arbitrary: a)
  case Nil
  then show ?case by simp
next
  case (Cons p ps)
  from Cons.prems have new: "fst p \<notin> fst ` set a" by auto
  from Cons.prems have "distinct (map fst ((a @ [p]) @ ps))" by auto
  then have "spread (a @ [p]) ps = (a @ [p]) @ ps" by (rule Cons.IH)
  with new show ?case by (simp add: set_prop_new)
qed

section \<open>Which handler serves which operation\<close>

lemma Create_Usuarios: "Create Usuarios e p s = Some (post_usuarios e p s)"
  by (simp add: Create_def serve_def routes_def)

lemma Read_Usuarios: "Read Usuarios e i s = Some (get_usuarios e i s)"
  by (simp add: Read_def serve_def routes_def)

lemma Update_Usuarios: "Update Usuarios e i p s = Some (put_usuarios e i p s)"
  by (simp add: Update_def serve_def routes_def)

lemma Delete_Usuarios: "Delete Usuarios e i s = Some (delete_usuarios e i s)"
  by (simp add: Delete_def serve_def routes_def)

lemma Create_Maquinas: "Create Maquinas e p s = Some (post_maquinas e p s)"
  by (simp add: Create_def serve_def routes_def)

lemma Read_Maquinas: "Read Maquinas e i s = Some (get_maquinas e i s)"
  by (simp add: Read_def serve_def routes_def)

lemma Update_Maquinas: "Update Maquinas e i p s = Some (put_maquinas e i p s)"
  by (simp add: Update_def serve_def routes_def)

lemma Delete_Maquinas: "Delete Maquinas e i s = Some (delete_maquinas e i s)"
  by (simp add: Delete_def serve_def routes_def)

lemma Create_Alquileres: "Create Alquileres e p s = Some (post_alquileres e p s)"
  by (simp add: Create_def serve_def routes_def)

lemma Read_Alquileres: "Read Alquileres e i s = Some (get_alquileres e i s)"
  by (simp add: Read_def serve_def routes_def)

lemma Update_Alquileres: "Update Alquileres e i p s = Some (put_alquileres e i p s)"
  by (simp add: Update_def serve_def routes_def)

lemma Delete_Alquileres: "Delete Alquileres e i s = Some (delete_alquileres e i s)"
  by (simp add: Delete_def serve_def routes_def)

lemma Create_Pagos: "Create Pagos e p s = Some (post_pagos e p s)"
  by (simp add: Create_def serve_def routes_def)

lemma Read_Pagos: "Read Pagos e i s = Some (get_pagos e i s)"
  by (simp add: Read_def serve_def routes_def)

lemma Update_Pagos: "Update Pagos e i p s = Some (put_pagos e i p s)"
  by (simp add: Update_def serve_def routes_def)

lemma Delete_Pagos: "Delete Pagos e i s = Some (delete_pagos e i s)"
  by (simp add: Delete_def serve_def routes_def)

lemma Create_Distribuidores: "Create Distribuidores e p s = Some (post_distribuidores e p s)"
  by (simp add: Create_def serve_def routes_def)

lemma Read_Distribuidores: "Read Distribuidores e i s = Some (get_distribuidores e i s)"
  by (simp add: Read_def serve_def routes_def)

lemma Update_Distribuidores: "Update Distribuidores e i p s = Some (put_distribuidores e i p s)"
  by (simp add: Update_def serve_def routes_def)

lemma Delete_Distribuidores: "Delete Distribuidores e i s = Some (delete_distribuidores e i s)"
  by (simp add: Delete_def serve_def routes_def)

lemma Create_Resenas: "Create Resenas e p s = Some (post_resenas e p s)"
  by (simp add: Create_def serve_def routes_def)

lemma Read_Resenas: "Read Resenas e i s = Some (get_resenas e i s)"
  by (simp add: Read_def serve_def routes_def)

lemma Update_Resenas: "Update Resenas e i p s = Some (put_resenas e i p s)"
  by (simp add: Update_def serve_def routes_def)

lemma Delete_Resenas: "Delete Resenas e i s = Some (delete_resenas e i s)"
  by (simp add: Delete_def serve_def routes_def)

lemma Create_Categorias: "Create Categorias e p s = Some (post_categorias e p s)"
  by (simp add: Create_def serve_def routes_def)

lemma Read_Categorias: "Read Categorias e i s = Some (get_categorias e i s)"
  by (simp add: Read_def serve_def routes_def)

lemma Update_Categorias: "Update Categorias e i p s = Some (put_categorias e i p s)"
  by (simp add: Update_def serve_def routes_def)

lemma Delete_Categorias: "Delete Categorias e i s = Some (delete_categorias e i s)"
  by (simp add: Delete_def serve_def routes_def)

lemma Create_Ubicaciones: "Create Ubicaciones e p s = Some (post_ubicaciones e p s)"
  by (simp add: Create_def serve_def routes_def)

lemma Read_Ubicaciones: "Read Ubicaciones e i s = Some (get_ubicaciones e i s)"
  by (simp add: Read_def serve_def routes_def)

lemma Update_Ubicaciones: "Update Ubicaciones e i p s = Some (put_ubicaciones e i p s)"
  by (simp add: Update_def serve_def routes_def)

lemma Delete_Ubicaciones: "Delete Ubicaciones e i s = Some (delete_ubicaciones e i s)"
  by (simp add: Delete_def serve_def routes_def)

lemma Create_Soporte: "Create Soporte e p s = Some (post_soporte e p s)"
  by (simp add: Create_def serve_def routes_def)

lemma Read_Soporte: "Read Soporte e i s = Some (get_soporte e i s)"
  by (simp add: Read_def serve_def routes_def)

lemma Update_Soporte: "Update Soporte e i p s = Some (put_soporte e i p s)"
  by (simp add: Update_def serve_def routes_def)

lemma Delete_Soporte: "Delete Soporte e i s = Some (delete_soporte e i s)"
  by (simp add: Delete_def serve_def routes_def)

lemma Create_Trabajadores: "Create Trabajadores e p s = Some (post_trabajadores e p s)"
  by (simp add: Create_def serve_def routes_def)

lemma Read_Trabajadores: "Read Trabajadores e i s = Some (get_trabajadores e i s)"
  by (simp add: Read_def serve_def routes_def)

lemma Update_Trabajadores: "Update Trabajadores e i p s = Some (put_trabajadores e i p s)"
  by (simp add: Update_def serve_def routes_def)

lemma Delete_Trabajadores: "Delete Trabajadores e i s = Some (delete_trabajadores e i s)"
  by (simp add: Delete_def serve_def routes_def)

lemmas Create_handler = Create_Usuarios Create_Maquinas Create_Alquileres Create_Pagos Create_Distribuidores Create_Resenas Create_Categorias Create_Ubicaciones Create_Soporte Create_Trabajadores

lemmas Read_handler = Read_Usuarios Read_Maquinas Read_Alquileres Read_Pagos Read_Distribuidores Read_Resenas Read_Categorias Read_Ubicaciones Read_Soporte Read_Trabajadores

lemmas Update_handler = Update_Usuarios Update_Maquinas Update_Alquileres Update_Pagos Update_Distribuidores Update_Resenas Update_Categorias Update_Ubicaciones Update_Soporte Update_Trabajadores

lemmas Delete_handler = Delete_Usuarios Delete_Maquinas Delete_Alquileres Delete_Pagos Delete_Distribuidores Delete_Resenas Delete_Categorias Delete_Ubicaciones Delete_Soporte Delete_Trabajadores

section \<open>Creation\<close>

lemmas post_defs = post_usuarios_def post_maquinas_def post_alquileres_def post_pagos_def
  post_distribuidores_def post_resenas_def post_categorias_def post_ubicaciones_def
  post_soporte_def post_trabajadores_def

text \<open>
  What a creation does with a payload that passes its checks, for every resource: the
  response is 201 with the store's identifier in front of the document, and the store
  gains that document under that identifier. The document is \<open>new_document\<close>: the
  fields of the resource with the payload's values, and nothing else of the payload.
\<close>

lemma Create_accepted:
  assumes "\<forall>k \<in> set (fields R). \<not> missing R payload k"
    and "R = Resenas \<longrightarrow> \<not> rating_refused e payload"
    and "\<not> store_fails e (CallAdd (collection R) (new_document R e payload))"
  shows "Create R e payload s =
      Some (\<lparr>status = 201, content = Json ((''id'', JStr (new_id e)) # new_document R e payload)\<rparr>,
            s(collection R := (s (collection R))(new_id e \<mapsto> new_document R e payload)))"
  using assms
  by (cases R)
    (simp_all add: Create_handler post_defs Let_def coll_add_def new_document_def pick_def
      json_def defined_props_def truthy_defined rating_refused_def missing_def
      checked_for_undefined_def)

lemma truthy_not_missing: "truthy (property payload k) \<Longrightarrow> \<not> missing R payload k"
  by (simp add: missing_def truthy_defined)

text \<open>
  C1, as the code has it. For every resource and every payload in which each required
  field is truthy (and, for a review, the rating passes the range check), when the store
  answers the insertion with a fresh identifier, Create returns 201 with a body made of
  the store-assigned identifier followed by the fields of the resource with the values
  submitted; it inserts exactly that document, under that identifier, into the
  collection of the resource and changes nothing else. Nothing is defaulted but the
  \<^verbatim>\<open>fechaRegistro\<close> of a user. A property of the payload that is not a field of the
  resource is neither stored nor returned.
\<close>

theorem create_stores_the_fields_of_the_resource:
  assumes present: "\<forall>k \<in> set (fields R). truthy (property payload k)"
    and rating: "R = Resenas \<longrightarrow> \<not> rating_refused e payload"
    and answered: "\<not> store_fails e (CallAdd (collection R) (new_document R e payload))"
    and fresh: "s (collection R) (new_id e) = None"
  shows "let d = new_document R e payload;
             s' = s(collection R := (s (collection R))(new_id e \<mapsto> d))
         in Create R e payload s =
              Some (\<lparr>status = 201, content = Json ((''id'', JStr (new_id e)) # d)\<rparr>, s')
            \<and> dom (s' (collection R)) - dom (s (collection R)) = {new_id e}
            \<and> d = pick (fields R) payload @
                  (if R = Usuarios then [(''fechaRegistro'', JStr (now e))] else [])"
proof -
  have grown: "dom ((s (collection R))(new_id e \<mapsto> d)) - dom (s (collection R)) = {new_id e}" for d
    using fresh by auto
  from present have "\<forall>k \<in> set (fields R). \<not> missing R payload k"
    by (simp add: truthy_not_missing)
  then have "Create R e payload s =
      Some (\<lparr>status = 201, content = Json ((''id'', JStr (new_id e)) # new_document R e payload)\<rparr>,
            s(collection R := (s (collection R))(new_id e \<mapsto> new_document R e payload)))"
    using rating answered by (rule Create_accepted)
  with grown show ?thesis
    by (simp add: Let_def new_document_def)
qed

theorem create_stores_the_fields_of_the_resource_witness:
  "Create Usuarios quiet ana no_docs =
     Some (\<lparr>status = 201, content = Json ((''id'', JStr ''doc1'') # ana_doc)\<rparr>,
           no_docs(''usuarios'' := (no_docs ''usuarios'')(''doc1'' \<mapsto> ana_doc)))
   \<and> Create Resenas quiet (resena 5) no_docs =
     Some (\<lparr>status = 201, content = Json ((''id'', JStr ''doc1'') # resena 5)\<rparr>,
           no_docs(''resenas'' := (no_docs ''resenas'')(''doc1'' \<mapsto> resena 5)))"
  using create_stores_the_fields_of_the_resource [of Usuarios ana quiet no_docs]
    create_stores_the_fields_of_the_resource [of Resenas "resena 5" quiet no_docs]
  by (simp add: Let_def quiet_def no_docs_def ana_def ana_doc_def resena_def new_document_def
      pick_def property_def rating_refused_def js_lt_def js_gt_def)

text \<open>
  C1 as it is worded fails twice. A user payload with a property beyond the three
  fields is accepted, and the property is in neither the body nor the stored document:
  the body is not "all submitted fields". And a review whose four fields are all
  truthy is refused with 400 when its rating is 6.
\<close>

theorem create_all_submitted_fields_counterexample:
  "property (ana @ [(''telefono'', JStr ''555'')]) ''telefono'' = JStr ''555''
   \<and> Create Usuarios quiet (ana @ [(''telefono'', JStr ''555'')]) no_docs =
       Some (\<lparr>status = 201, content = Json ((''id'', JStr ''doc1'') # ana_doc)\<rparr>,
             no_docs(''usuarios'' := (no_docs ''usuarios'')(''doc1'' \<mapsto> ana_doc)))
   \<and> property ((''id'', JStr ''doc1'') # ana_doc) ''telefono'' = JUndefined
   \<and> truthy (property (resena 6) ''usuarioId'') \<and> truthy (property (resena 6) ''productoId'')
   \<and> truthy (property (resena 6) ''calificacion'') \<and> truthy (property (resena 6) ''comentario'')
   \<and> Create Resenas quiet (resena 6) no_docs =
       Some (\<lparr>status = 400, content = Json (mensaje range_message)\<rparr>, no_docs)"
  by (simp add: Create_handler post_defs Let_def coll_add_def json_def defined_props_def
      quiet_def no_docs_def ana_def ana_doc_def resena_def property_def mensaje_def
      range_message_def js_lt_def js_gt_def)

lemma json_mensaje: "json st (mensaje m) = \<lparr>status = st, content = Json (mensaje m)\<rparr>"
  by (simp add: json_def mensaje_def defined_props_def)

lemma Create_refused:
  assumes "k \<in> set (fields R)" and "missing R payload k"
  shows "Create R e payload s = Some (json 400 (mensaje (missing_message R)), s)"
  using assms
  by (cases R)
    (auto simp: Create_handler post_defs Let_def missing_def checked_for_undefined_def)

text \<open>
  C2, as the code has it. For every resource and every payload in which some required
  field is missing, Create returns 400 with the one message of the resource, which
  lists all its required fields whichever of them is missing, and the store is left as
  it was. Missing means falsy (undefined, null, false, zero, the empty string), so a
  machine's \<^verbatim>\<open>precio\<close> or a worker's \<^verbatim>\<open>salario\<close> of 0 is missing; but the
  \<^verbatim>\<open>latitud\<close> and \<^verbatim>\<open>longitud\<close> of a location and the \<^verbatim>\<open>comentario\<close> of a review
  are missing only when they are undefined.
\<close>

theorem create_refuses_a_missing_field:
  assumes "k \<in> set (fields R)" and "missing R payload k"
  shows "Create R e payload s =
           Some (\<lparr>status = 400, content = Json (mensaje (missing_message R))\<rparr>, s)"
  using Create_refused [OF assms] by (simp add: json_mensaje)

theorem create_refuses_a_missing_field_witness:
  "missing Maquinas (excavadora (JNum 0)) ''precio''
   \<and> Create Maquinas quiet (excavadora (JNum 0)) no_docs =
       Some (\<lparr>status = 400, content = Json (mensaje (missing_message Maquinas))\<rparr>, no_docs)"
proof -
  have field: "''precio'' \<in> set (fields Maquinas)"
    by simp
  have zero: "missing Maquinas (excavadora (JNum 0)) ''precio''"
    by (simp add: missing_def checked_for_undefined_def excavadora_def property_def)
  from create_refuses_a_missing_field [OF field zero] zero show ?thesis
    by simp
qed

text \<open>
  C2 as it is worded counts zero as missing for every required field of every resource.
  A location whose \<^verbatim>\<open>latitud\<close> is 0 is created all the same.
\<close>

theorem create_zero_is_missing_counterexample:
  "\<not> truthy (property (bodega (JNum 0) (JNum 1)) ''latitud'')
   \<and> Create Ubicaciones quiet (bodega (JNum 0) (JNum 1)) no_docs =
       Some (\<lparr>status = 201, content = Json ((''id'', JStr ''doc1'') # bodega (JNum 0) (JNum 1))\<rparr>,
             no_docs(''ubicaciones'' :=
               (no_docs ''ubicaciones'')(''doc1'' \<mapsto> bodega (JNum 0) (JNum 1))))"
  by (simp add: Create_handler post_defs Let_def coll_add_def json_def defined_props_def
      quiet_def no_docs_def bodega_def property_def)

text \<open>
  C8. A location is created when its name and address are truthy and its latitude and
  longitude are anything but undefined: the creation answers 201 and stores the
  document, zero coordinates included. It is refused, with 400, exactly when one of
  the two is undefined.
\<close>

theorem location_coordinates_checked_for_undefined:
  assumes "truthy (property payload ''nombre'')" and "truthy (property payload ''direccion'')"
    and "\<not> store_fails e (CallAdd ''ubicaciones'' (pick (fields Ubicaciones) payload))"
  shows "Create Ubicaciones e payload s =
     (if property payload ''latitud'' = JUndefined \<or> property payload ''longitud'' = JUndefined
      then Some (\<lparr>status = 400, content = Json (mensaje (missing_message Ubicaciones))\<rparr>, s)
      else Some (\<lparr>status = 201,
                  content = Json ((''id'', JStr (new_id e)) # pick (fields Ubicaciones) payload)\<rparr>,
                 s(''ubicaciones'' :=
                     (s ''ubicaciones'')(new_id e \<mapsto> pick (fields Ubicaciones) payload))))"
  using assms
  by (simp add: Create_handler post_ubicaciones_def Let_def coll_add_def pick_def json_def
      defined_props_def truthy_defined mensaje_def)

theorem location_coordinates_checked_for_undefined_witness:
  "Create Ubicaciones quiet (bodega (JNum 0) (JNum 0)) no_docs =
     Some (\<lparr>status = 201, content = Json ((''id'', JStr ''doc1'') # bodega (JNum 0) (JNum 0))\<rparr>,
           no_docs(''ubicaciones'' :=
             (no_docs ''ubicaciones'')(''doc1'' \<mapsto> bodega (JNum 0) (JNum 0))))
   \<and> Create Ubicaciones quiet
       [(''nombre'', JStr ''Bodega''), (''direccion'', JStr ''Calle 1''), (''longitud'', JNum 0)]
       no_docs =
     Some (\<lparr>status = 400, content = Json (mensaje (missing_message Ubicaciones))\<rparr>, no_docs)"
  using location_coordinates_checked_for_undefined [of "bodega (JNum 0) (JNum 0)" quiet no_docs]
    location_coordinates_checked_for_undefined
      [of "[(''nombre'', JStr ''Bodega''), (''direccion'', JStr ''Calle 1''), (''longitud'', JNum 0)]"
        quiet no_docs]
  by (simp add: quiet_def bodega_def pick_def property_def)

section \<open>Reading, updating and deleting\<close>

lemmas get_defs = get_usuarios_def get_maquinas_def get_alquileres_def get_pagos_def
  get_distribuidores_def get_resenas_def get_categorias_def get_ubicaciones_def
  get_soporte_def get_trabajadores_def

lemmas put_defs = put_usuarios_def put_maquinas_def put_alquileres_def put_pagos_def
  put_distribuidores_def put_resenas_def put_categorias_def put_ubicaciones_def
  put_soporte_def put_trabajadores_def

lemmas delete_defs = delete_usuarios_def delete_maquinas_def delete_alquileres_def
  delete_pagos_def delete_distribuidores_def delete_resenas_def delete_categorias_def
  delete_ubicaciones_def delete_soporte_def delete_trabajadores_def

lemma Read_found:
  assumes "s (collection R) did = Some d" and "\<not> store_fails e (CallGet (collection R) did)"
  shows "Read R e did s = Some (json 200 (spread [(''id'', JStr did)] d), s)"
  using assms by (cases R) (simp_all add: Read_handler get_defs doc_get_def)

lemma Read_unknown:
  assumes "s (collection R) did = None" and "\<not> store_fails e (CallGet (collection R) did)"
  shows "Read R e did s = Some (json 404 (mensaje (not_found_message R)), s)"
  using assms by (cases R) (simp_all add: Read_handler get_defs doc_get_def)

lemma Update_unknown:
  assumes "s (collection R) did = None" and "\<not> store_fails e (CallGet (collection R) did)"
  shows "Update R e did payload s = Some (json 404 (mensaje (not_found_message R)), s)"
  using assms by (cases R) (simp_all add: Update_handler put_defs doc_get_def)

lemma Delete_unknown:
  assumes "s (collection R) did = None" and "\<not> store_fails e (CallGet (collection R) did)"
  shows "Delete R e did s = Some (json 404 (mensaje (not_found_message R)), s)"
  using assms by (cases R) (simp_all add: Delete_handler delete_defs doc_get_def)

lemma Delete_found:
  assumes "s (collection R) did = Some d" and "\<not> store_fails e (CallGet (collection R) did)"
    and "\<not> store_fails e (CallDelete (collection R) did)"
  shows "Delete R e did s =
    Some (json 200 (mensaje (deleted_message R)), s(collection R := (s (collection R))(did := None)))"
  using assms by (cases R) (simp_all add: Delete_handler delete_defs doc_get_def doc_delete_def)

text \<open>
  An update of a document that is there: the range check of the reviews, then the
  store's merge of the picked fields, with no other check in between.
\<close>

lemma Update_found:
  assumes "s (collection R) did = Some old" and "\<not> store_fails e (CallGet (collection R) did)"
  shows "Update R e did payload s =
    Some (if R = Resenas \<and> rating_refused e payload
          then (json 400 (mensaje range_message), s)
          else if store_fails e (CallUpdate (collection R) did (pick (fields R) payload))
          then (internal_error, s)
          else (json 200 (mensaje (updated_message R)),
                s(collection R := (s (collection R))
                    (did \<mapsto> spread old (defined_props (pick (fields R) payload))))))"
  using assms
  by (cases R)
    (simp_all add: Update_handler put_defs doc_get_def doc_update_def Let_def pick_def
      rating_refused_def range_message_def)

lemma new_document_keys:
  "distinct (map fst ((''id'', v) # new_document R e payload))"
  by (cases R) (simp_all add: new_document_def pick_def)

lemma new_document_defined:
  assumes "\<forall>k \<in> set (fields R). \<not> missing R payload k"
  shows "defined_props ((''id'', JStr i) # new_document R e payload) =
         (''id'', JStr i) # new_document R e payload"
  using assms
  by (cases R)
    (auto simp: defined_props_def new_document_def pick_def missing_def truthy_defined
      checked_for_undefined_def)

text \<open>
  C3, as the code has it. For every resource and every payload that the creation
  accepts (no field of the resource missing and, for a review, the rating not refused
  by the range check), after a creation that the store carried out, a Read of the
  identifier it returned answers 200 with the body the creation answered: the
  identifier and the stored document, which is the fields of the resource as submitted
  and, for a user, \<^verbatim>\<open>fechaRegistro\<close>. Properties of the payload outside those fields do
  not come back.
\<close>

theorem read_after_create_returns_the_created_body:
  assumes present: "\<forall>k \<in> set (fields R). \<not> missing R payload k"
    and rating: "R = Resenas \<longrightarrow> \<not> rating_refused e payload"
    and added: "\<not> store_fails e (CallAdd (collection R) (new_document R e payload))"
    and got: "\<not> store_fails e' (CallGet (collection R) (new_id e))"
  shows "let d = new_document R e payload;
             s' = s(collection R := (s (collection R))(new_id e \<mapsto> d))
         in Create R e payload s =
              Some (\<lparr>status = 201, content = Json ((''id'', JStr (new_id e)) # d)\<rparr>, s')
            \<and> Read R e' (new_id e) s' =
              Some (\<lparr>status = 200, content = Json ((''id'', JStr (new_id e)) # d)\<rparr>, s')"
proof -
  let ?d = "new_document R e payload"
  let ?s' = "s(collection R := (s (collection R))(new_id e \<mapsto> ?d))"
  have created: "Create R e payload s =
      Some (\<lparr>status = 201, content = Json ((''id'', JStr (new_id e)) # ?d)\<rparr>, ?s')"
    using present rating added by (rule Create_accepted)
  have "?s' (collection R) (new_id e) = Some ?d"
    by simp
  then have "Read R e' (new_id e) ?s' = Some (json 200 (spread [(''id'', JStr (new_id e))] ?d), ?s')"
    using got by (rule Read_found)
  moreover have "spread [(''id'', JStr (new_id e))] ?d = (''id'', JStr (new_id e)) # ?d"
    using spread_append [of "[(''id'', JStr (new_id e))]" ?d] new_document_keys [of _ R e payload]
    by simp
  ultimately have "Read R e' (new_id e) ?s' =
      Some (\<lparr>status = 200, content = Json ((''id'', JStr (new_id e)) # ?d)\<rparr>, ?s')"
    by (simp add: json_def new_document_defined [OF present])
  with created show ?thesis
    by (simp add: Let_def)
qed

theorem read_after_create_returns_the_created_body_witness:
  "Create Usuarios quiet ana no_docs =
     Some (\<lparr>status = 201, content = Json ((''id'', JStr ''doc1'') # ana_doc)\<rparr>, one_user)
   \<and> Read Usuarios quiet ''doc1'' one_user =
     Some (\<lparr>status = 200, content = Json ((''id'', JStr ''doc1'') # ana_doc)\<rparr>, one_user)
   \<and> \<not> truthy (property (bodega (JNum 0) (JNum 0)) ''latitud'')
   \<and> Create Ubicaciones quiet (bodega (JNum 0) (JNum 0)) no_docs =
     Some (\<lparr>status = 201, content = Json ((''id'', JStr ''doc1'') # bodega (JNum 0) (JNum 0))\<rparr>,
           no_docs(''ubicaciones'' :=
             (no_docs ''ubicaciones'')(''doc1'' \<mapsto> bodega (JNum 0) (JNum 0))))
   \<and> Read Ubicaciones quiet ''doc1''
       (no_docs(''ubicaciones'' :=
          (no_docs ''ubicaciones'')(''doc1'' \<mapsto> bodega (JNum 0) (JNum 0)))) =
     Some (\<lparr>status = 200, content = Json ((''id'', JStr ''doc1'') # bodega (JNum 0) (JNum 0))\<rparr>,
           no_docs(''ubicaciones'' :=
             (no_docs ''ubicaciones'')(''doc1'' \<mapsto> bodega (JNum 0) (JNum 0))))"
proof -
  have user: "\<forall>k \<in> set (fields Usuarios). \<not> missing Usuarios ana k"
    by (simp add: missing_def checked_for_undefined_def ana_def property_def)
  have place: "\<forall>k \<in> set (fields Ubicaciones). \<not> missing Ubicaciones (bodega (JNum 0) (JNum 0)) k"
    by (simp add: missing_def checked_for_undefined_def bodega_def property_def)
  have answers: "\<not> store_fails quiet c" for c
    by (simp add: quiet_def)
  have zero: "\<not> truthy (property (bodega (JNum 0) (JNum 0)) ''latitud'')"
    by (simp add: bodega_def property_def)
  have docs: "new_document Usuarios quiet ana = ana_doc"
    "new_document Ubicaciones quiet (bodega (JNum 0) (JNum 0)) = bodega (JNum 0) (JNum 0)"
    by (simp_all add: new_document_def pick_def quiet_def ana_def ana_doc_def bodega_def
        property_def)
  have id: "new_id quiet = ''doc1''"
    by (simp add: quiet_def)
  from read_after_create_returns_the_created_body [of Usuarios ana quiet quiet no_docs]
    user answers
  have a: "Create Usuarios quiet ana no_docs =
       Some (\<lparr>status = 201, content = Json ((''id'', JStr ''doc1'') # ana_doc)\<rparr>, one_user)
     \<and> Read Usuarios quiet ''doc1'' one_user =
       Some (\<lparr>status = 200, content = Json ((''id'', JStr ''doc1'') # ana_doc)\<rparr>, one_user)"
    by (simp add: Let_def docs id one_user_def del: fields.simps)
  from read_after_create_returns_the_created_body
    [of Ubicaciones "bodega (JNum 0) (JNum 0)" quiet quiet no_docs] place answers
  have b: "Create Ubicaciones quiet (bodega (JNum 0) (JNum 0)) no_docs =
     Some (\<lparr>status = 201, content = Json ((''id'', JStr ''doc1'') # bodega (JNum 0) (JNum 0))\<rparr>,
           no_docs(''ubicaciones'' :=
             (no_docs ''ubicaciones'')(''doc1'' \<mapsto> bodega (JNum 0) (JNum 0))))
   \<and> Read Ubicaciones quiet ''doc1''
       (no_docs(''ubicaciones'' :=
          (no_docs ''ubicaciones'')(''doc1'' \<mapsto> bodega (JNum 0) (JNum 0)))) =
     Some (\<lparr>status = 200, content = Json ((''id'', JStr ''doc1'') # bodega (JNum 0) (JNum 0))\<rparr>,
           no_docs(''ubicaciones'' :=
             (no_docs ''ubicaciones'')(''doc1'' \<mapsto> bodega (JNum 0) (JNum 0))))"
    by (simp add: Let_def docs id del: fields.simps)
  from a b zero show ?thesis
    by blast
qed

text \<open>
  C3 as it is worded has the Read return exactly the submitted fields and the
  identifier. For the user of the example it returns one field more, the
  \<^verbatim>\<open>fechaRegistro\<close> that the payload did not have.
\<close>

theorem read_returns_exactly_the_payload_counterexample:
  "Create Usuarios quiet ana no_docs =
     Some (\<lparr>status = 201, content = Json ((''id'', JStr ''doc1'') # ana_doc)\<rparr>, one_user)
   \<and> Read Usuarios quiet ''doc1'' one_user =
     Some (\<lparr>status = 200, content = Json ((''id'', JStr ''doc1'') # ana_doc)\<rparr>, one_user)
   \<and> property ana ''fechaRegistro'' = JUndefined
   \<and> property ((''id'', JStr ''doc1'') # ana_doc) ''fechaRegistro'' = JStr ''2024-05-01T12:00:00.000Z''"
  by (simp add: Create_handler Read_handler post_defs get_defs Let_def coll_add_def doc_get_def
      json_def defined_props_def quiet_def no_docs_def one_user_def ana_def ana_doc_def
      property_def)

text \<open>
  C5. For every resource and every identifier with no document in the collection,
  Read, Update and Delete each answer 404 and leave the store as it was. The update
  looks the document up before it looks at the payload, so this holds for every
  payload, a review rated out of range included: it gets 404 and not 400.
\<close>

theorem unknown_id_is_404:
  assumes "s (collection R) did = None" and "\<not> store_fails e (CallGet (collection R) did)"
  shows "Read R e did s =
           Some (\<lparr>status = 404, content = Json (mensaje (not_found_message R))\<rparr>, s)
       \<and> Update R e did payload s =
           Some (\<lparr>status = 404, content = Json (mensaje (not_found_message R))\<rparr>, s)
       \<and> Delete R e did s =
           Some (\<lparr>status = 404, content = Json (mensaje (not_found_message R))\<rparr>, s)"
  using assms by (simp add: Read_unknown Update_unknown Delete_unknown json_mensaje)

theorem unknown_id_is_404_witness:
  "rating_refused quiet (resena 6)
   \<and> Update Resenas quiet ''doc2'' (resena 6) one_review =
       Some (\<lparr>status = 404, content = Json (mensaje (not_found_message Resenas))\<rparr>, one_review)
   \<and> Read Resenas quiet ''doc2'' one_review =
       Some (\<lparr>status = 404, content = Json (mensaje (not_found_message Resenas))\<rparr>, one_review)
   \<and> Delete Resenas quiet ''doc2'' one_review =
       Some (\<lparr>status = 404, content = Json (mensaje (not_found_message Resenas))\<rparr>, one_review)"
proof -
  have unknown: "one_review (collection Resenas) ''doc2'' = None"
    by (simp add: one_review_def no_docs_def)
  have answered: "\<not> store_fails quiet (CallGet (collection Resenas) ''doc2'')"
    by (simp add: quiet_def)
  have "rating_refused quiet (resena 6)"
    by (simp add: rating_refused_def js_lt_def js_gt_def resena_def property_def)
  with unknown_id_is_404 [of one_review Resenas "''doc2''" quiet "resena 6"] unknown answered
  show ?thesis
    by simp
qed

text \<open>
  C6. For every resource and every document that is there, a Delete that the store
  carries out answers 200 with the fixed message of the resource and removes the
  document; a Read of the same identifier then answers 404, and so does a second
  Delete, since each Delete looks the document up first.
\<close>

theorem delete_then_404:
  assumes "s (collection R) did = Some d"
    and "\<not> store_fails e (CallGet (collection R) did)"
    and "\<not> store_fails e (CallDelete (collection R) did)"
    and "\<not> store_fails e' (CallGet (collection R) did)"
    and "\<not> store_fails e'' (CallGet (collection R) did)"
  shows "let s' = s(collection R := (s (collection R))(did := None))
         in Delete R e did s =
              Some (\<lparr>status = 200, content = Json (mensaje (deleted_message R))\<rparr>, s')
            \<and> Read R e' did s' =
              Some (\<lparr>status = 404, content = Json (mensaje (not_found_message R))\<rparr>, s')
            \<and> Delete R e'' did s' =
              Some (\<lparr>status = 404, content = Json (mensaje (not_found_message R))\<rparr>, s')"
proof -
  let ?s' = "s(collection R := (s (collection R))(did := None))"
  have gone: "?s' (collection R) did = None"
    by simp
  have "Delete R e did s = Some (json 200 (mensaje (deleted_message R)), ?s')"
    using assms(1-3) by (simp add: Delete_found)
  moreover have "Read R e' did ?s' = Some (json 404 (mensaje (not_found_message R)), ?s')"
    using gone assms(4) by (rule Read_unknown)
  moreover have "Delete R e'' did ?s' = Some (json 404 (mensaje (not_found_message R)), ?s')"
    using gone assms(5) by (rule Delete_unknown)
  ultimately show ?thesis
    by (simp add: Let_def json_mensaje)
qed

theorem delete_then_404_witness:
  "Delete Usuarios quiet ''doc1'' one_user =
     Some (\<lparr>status = 200, content = Json (mensaje (deleted_message Usuarios))\<rparr>,
           one_user(''usuarios'' := (one_user ''usuarios'')(''doc1'' := None)))
   \<and> Read Usuarios quiet ''doc1'' (one_user(''usuarios'' := (one_user ''usuarios'')(''doc1'' := None))) =
     Some (\<lparr>status = 404, content = Json (mensaje (not_found_message Usuarios))\<rparr>,
           one_user(''usuarios'' := (one_user ''usuarios'')(''doc1'' := None)))
   \<and> Delete Usuarios quiet ''doc1'' (one_user(''usuarios'' := (one_user ''usuarios'')(''doc1'' := None))) =
     Some (\<lparr>status = 404, content = Json (mensaje (not_found_message Usuarios))\<rparr>,
           one_user(''usuarios'' := (one_user ''usuarios'')(''doc1'' := None)))"
proof -
  have stored: "one_user (collection Usuarios) ''doc1'' = Some ana_doc"
    by (simp add: one_user_def)
  have a: "\<not> store_fails quiet (CallGet (collection Usuarios) ''doc1'')"
    and b: "\<not> store_fails quiet (CallDelete (collection Usuarios) ''doc1'')"
    by (simp_all add: quiet_def)
  from delete_then_404 [of one_user Usuarios "''doc1''" ana_doc quiet quiet quiet] stored a b
  show ?thesis
    by (simp add: Let_def)
qed

lemma map_of_picked:
  "map_of (rev (defined_props (pick ks payload))) k =
     (if k \<in> set ks \<and> property payload k \<noteq> JUndefined then Some (property payload k) else None)"
  by (induction ks) (auto simp: defined_props_def pick_def map_add_def)

lemma property_merged:
  "property (spread old (defined_props (pick ks payload))) k =
     (if k \<in> set ks \<and> property payload k \<noteq> JUndefined then property payload k
      else property old k)"
  by (simp add: property_spread map_of_picked)

text \<open>
  C4, as the code has it. For every resource and every document that is there, an
  update that passes the handler's check (for a review, a rating that the range check
  does not refuse) and that the store carries out answers 200 with the fixed message of
  the resource, not with the document, and replaces the document, under the same
  identifier, by its merge with the payload: a field of the resource that the payload
  names takes the payload's value, and every other stored field, named or not by the
  payload, keeps its value. No other document changes.
\<close>

theorem update_merges_the_named_fields:
  assumes stored: "s (collection R) did = Some old"
    and got: "\<not> store_fails e (CallGet (collection R) did)"
    and updated: "\<not> store_fails e (CallUpdate (collection R) did (pick (fields R) payload))"
    and rating: "R = Resenas \<longrightarrow> \<not> rating_refused e payload"
  shows "let new = spread old (defined_props (pick (fields R) payload))
         in Update R e did payload s =
              Some (\<lparr>status = 200, content = Json (mensaje (updated_message R))\<rparr>,
                    s(collection R := (s (collection R))(did \<mapsto> new)))
            \<and> (\<forall>k. property new k =
                  (if k \<in> set (fields R) \<and> property payload k \<noteq> JUndefined
                   then property payload k else property old k))"
  using Update_found [of s R did old e payload] assms
  by (simp add: Let_def json_mensaje property_merged)

theorem update_merges_the_named_fields_witness:
  "Update Usuarios quiet ''doc1''
     [(''nombre'', JStr ''Ana Maria''), (''correo'', JStr ''ana@y.com''), (''rol'', JStr ''cliente'')]
     one_user =
     Some (\<lparr>status = 200, content = Json (mensaje (updated_message Usuarios))\<rparr>,
           one_user(''usuarios'' := (one_user ''usuarios'')(''doc1'' \<mapsto>
             [(''nombre'', JStr ''Ana Maria''), (''correo'', JStr ''ana@y.com''),
              (''rol'', JStr ''cliente''),
              (''fechaRegistro'', JStr ''2024-05-01T12:00:00.000Z'')])))"
proof -
  let ?p = "[(''nombre'', JStr ''Ana Maria''), (''correo'', JStr ''ana@y.com''),
             (''rol'', JStr ''cliente'')]"
  have stored: "one_user (collection Usuarios) ''doc1'' = Some ana_doc"
    by (simp add: one_user_def)
  have new: "spread ana_doc (defined_props (pick (fields Usuarios) ?p)) =
      [(''nombre'', JStr ''Ana Maria''), (''correo'', JStr ''ana@y.com''),
       (''rol'', JStr ''cliente''), (''fechaRegistro'', JStr ''2024-05-01T12:00:00.000Z'')]"
    by (simp add: ana_doc_def ana_def defined_props_def pick_def property_def)
  from update_merges_the_named_fields [of one_user Usuarios "''doc1''" ana_doc quiet ?p] stored
  have "Update Usuarios quiet ''doc1'' ?p one_user =
     Some (\<lparr>status = 200, content = Json (mensaje (updated_message Usuarios))\<rparr>,
           one_user(''usuarios'' := (one_user ''usuarios'')(''doc1'' \<mapsto>
             spread ana_doc (defined_props (pick (fields Usuarios) ?p)))))"
    by (simp add: Let_def quiet_def)
  with new show ?thesis
    by simp
qed

text \<open>
  C4 as it is worded has every update of a document that is there answered 200. The
  update of a review with a rating of 6 is answered 400 and writes nothing.
\<close>

theorem update_always_200_counterexample:
  "one_review ''resenas'' ''doc1'' = Some (resena 3)
   \<and> Update Resenas quiet ''doc1'' (resena 6) one_review =
       Some (\<lparr>status = 400, content = Json (mensaje range_message)\<rparr>, one_review)"
  by (simp add: Update_handler put_defs Let_def doc_get_def json_def defined_props_def
      mensaje_def range_message_def quiet_def no_docs_def one_review_def resena_def
      property_def js_lt_def js_gt_def)





text \<open>
  C9, as the code has it. No update looks at the required fields. Once the document is
  found, the update of a review checks the range of the rating and no update checks
  anything else: whatever the payload has or lacks, the picked fields go to the store's
  merge, and the answer is 200 when the store carries it out and 500 when it does not.
  The only 400 of an update is the review's range message.
\<close>

theorem update_checks_only_the_rating:
  assumes stored: "s (collection R) did = Some old"
    and got: "\<not> store_fails e (CallGet (collection R) did)"
  shows "Update R e did payload s =
    Some (if R = Resenas \<and> rating_refused e payload
          then (\<lparr>status = 400, content = Json (mensaje range_message)\<rparr>, s)
          else if store_fails e (CallUpdate (collection R) did (pick (fields R) payload))
          then (\<lparr>status = 500, content = Json (mensaje ''Error interno del servidor.'')\<rparr>, s)
          else (\<lparr>status = 200, content = Json (mensaje (updated_message R))\<rparr>,
                s(collection R := (s (collection R))
                    (did \<mapsto> spread old (defined_props (pick (fields R) payload))))))"
  using Update_found [of s R did old e payload] assms
  by (simp add: json_mensaje internal_error_def)

theorem update_checks_only_the_rating_witness:
  "missing Usuarios [(''nombre'', JNull), (''correo'', JStr ''ana@y.com''), (''rol'', JStr ''admin'')] ''nombre''
   \<and> Update Usuarios quiet ''doc1''
        [(''nombre'', JNull), (''correo'', JStr ''ana@y.com''), (''rol'', JStr ''admin'')] one_user =
     Some (\<lparr>status = 200, content = Json (mensaje (updated_message Usuarios))\<rparr>,
           one_user(''usuarios'' := (one_user ''usuarios'')(''doc1'' \<mapsto>
             [(''nombre'', JNull), (''correo'', JStr ''ana@y.com''), (''rol'', JStr ''admin''),
              (''fechaRegistro'', JStr ''2024-05-01T12:00:00.000Z'')])))"
proof -
  let ?p = "[(''nombre'', JNull), (''correo'', JStr ''ana@y.com''), (''rol'', JStr ''admin'')]"
  have stored: "one_user (collection Usuarios) ''doc1'' = Some ana_doc"
    by (simp add: one_user_def)
  have got: "\<not> store_fails quiet (CallGet (collection Usuarios) ''doc1'')"
    by (simp add: quiet_def)
  have new: "spread ana_doc (defined_props (pick (fields Usuarios) ?p)) =
      [(''nombre'', JNull), (''correo'', JStr ''ana@y.com''), (''rol'', JStr ''admin''),
       (''fechaRegistro'', JStr ''2024-05-01T12:00:00.000Z'')]"
    by (simp add: ana_doc_def ana_def defined_props_def pick_def property_def)
  have absent: "missing Usuarios ?p ''nombre''"
    by (simp add: missing_def checked_for_undefined_def property_def)
  from update_checks_only_the_rating [of one_user Usuarios "''doc1''" ana_doc quiet ?p] stored got
  have "Update Usuarios quiet ''doc1'' ?p one_user =
     Some (\<lparr>status = 200, content = Json (mensaje (updated_message Usuarios))\<rparr>,
           one_user(''usuarios'' := (one_user ''usuarios'')(''doc1'' \<mapsto>
             spread ana_doc (defined_props (pick (fields Usuarios) ?p)))))"
    by (simp add: quiet_def)
  with new absent show ?thesis
    by simp
qed

text \<open>
  C9 as it is worded has an update with a required field missing rejected before the
  write. A user update whose \<^verbatim>\<open>nombre\<close> is the empty string, which a creation
  refuses with 400, is answered 200 and written. So is a review update whose
  \<^verbatim>\<open>usuarioId\<close> is the empty string; and a review payload with no \<^verbatim>\<open>calificacion\<close>
  passes the range check, both comparisons being false.
\<close>

theorem update_revalidates_counterexample:
  "missing Usuarios [(''nombre'', JStr ''''), (''correo'', JStr ''ana@x.com''), (''rol'', JStr ''admin'')] ''nombre''
   \<and> Create Usuarios quiet
        [(''nombre'', JStr ''''), (''correo'', JStr ''ana@x.com''), (''rol'', JStr ''admin'')] one_user =
       Some (\<lparr>status = 400, content = Json (mensaje (missing_message Usuarios))\<rparr>, one_user)
   \<and> Update Usuarios quiet ''doc1''
        [(''nombre'', JStr ''''), (''correo'', JStr ''ana@x.com''), (''rol'', JStr ''admin'')] one_user =
       Some (\<lparr>status = 200, content = Json (mensaje (updated_message Usuarios))\<rparr>,
             one_user(''usuarios'' := (one_user ''usuarios'')(''doc1'' \<mapsto>
               [(''nombre'', JStr ''''), (''correo'', JStr ''ana@x.com''), (''rol'', JStr ''admin''),
                (''fechaRegistro'', JStr ''2024-05-01T12:00:00.000Z'')])))
   \<and> missing Resenas [(''usuarioId'', JStr ''''), (''productoId'', JStr ''p1''),
                      (''calificacion'', JNum 4), (''comentario'', JStr ''Regular'')] ''usuarioId''
   \<and> Update Resenas quiet ''doc1''
        [(''usuarioId'', JStr ''''), (''productoId'', JStr ''p1''),
         (''calificacion'', JNum 4), (''comentario'', JStr ''Regular'')] one_review =
       Some (\<lparr>status = 200, content = Json (mensaje (updated_message Resenas))\<rparr>,
             one_review(''resenas'' := (one_review ''resenas'')(''doc1'' \<mapsto>
               [(''usuarioId'', JStr ''''), (''productoId'', JStr ''p1''), (''calificacion'', JNum 4),
                (''comentario'', JStr ''Regular'')])))
   \<and> \<not> rating_refused quiet
         [(''usuarioId'', JStr ''u1''), (''productoId'', JStr ''p1''), (''comentario'', JStr ''Regular'')]"
  by (simp add: Create_handler Update_handler post_defs put_defs Let_def doc_get_def doc_update_def
      json_def defined_props_def mensaje_def quiet_def no_docs_def one_user_def one_review_def
      ana_def ana_doc_def resena_def property_def missing_def checked_for_undefined_def
      rating_refused_def js_lt_def js_gt_def)

section \<open>The two registrations of the payments\<close>

lemma try_route_answers: "matches r req \<Longrightarrow> \<exists>out. try_route r e req s = Some out"
  by (cases r) (auto split: list.splits)

lemma try_route_passes: "\<not> matches r req \<Longrightarrow> try_route r e req s = None"
  by (cases r) (auto split: list.splits)

lemma dispatch_first_match:
  "dispatch rs e req s =
     (case first_match rs req of None \<Rightarrow> None | Some i \<Rightarrow> try_route (rs ! i) e req s)"
proof (induction rs)
  case Nil
  then show ?case by simp
next
  case (Cons r rs)
  show ?case
  proof (cases "matches r req")
    case True
    then obtain out where "try_route r e req s = Some out"
      using try_route_answers by blast
    with True show ?thesis
      by simp
  next
    case False
    then have "try_route r e req s = None"
      by (rule try_route_passes)
    with False Cons.IH show ?thesis
      by (simp split: option.splits)
  qed
qed

lemma first_match_is_first:
  "first_match rs req = Some j \<Longrightarrow> i < j \<Longrightarrow> \<not> matches (rs ! i) req"
proof (induction rs arbitrary: i j)
  case Nil
  then show ?case by simp
next
  case (Cons r rs)
  show ?case
  proof (cases "matches r req")
    case True
    with Cons.prems show ?thesis by simp
  next
    case False
    with Cons.prems obtain j' where j': "first_match rs req = Some j'" "j = Suc j'"
      by auto
    show ?thesis
    proof (cases i)
      case 0
      with False show ?thesis by simp
    next
      case (Suc i')
      with Cons.prems(2) j' have "i' < j'" by simp
      with j'(1) have "\<not> matches (rs ! i') req" by (rule Cons.IH)
      with Suc show ?thesis by simp
    qed
  qed
qed

lemma first_match_matches:
  "first_match rs req = Some j \<Longrightarrow> matches (rs ! j) req"
  by (induction rs arbitrary: j) (auto split: if_splits)

text \<open>
  C10. \<^verbatim>\<open>POST /pagos\<close> is registered twice, at positions 13 and 33 of the
  registrations. The server answers a request with the first registration that
  matches it, so every such request is served by the first, whose fields are
  \<^verbatim>\<open>alquilerId\<close>, \<^verbatim>\<open>monto\<close>, \<^verbatim>\<open>metodo\<close> and \<^verbatim>\<open>fecha_pago\<close>; no request at all is served
  by the second. So a payload with no \<^verbatim>\<open>alquilerId\<close> is answered 400 and nothing is
  inserted, whatever else it has, the four fields of the second registration included.
\<close>

theorem first_registration_serves_post_pagos:
  "routes ! 13 = On_collection POST ''pagos'' post_pagos
   \<and> routes ! 33 = On_collection POST ''pagos'' post_pagos2
   \<and> first_match routes \<lparr>verb = POST, path = [''pagos''], body = payload\<rparr> = Some 13
   \<and> serve e \<lparr>verb = POST, path = [''pagos''], body = payload\<rparr> s = Some (post_pagos e payload s)
   \<and> (\<forall>req. serve e req s =
          (case first_match routes req of None \<Rightarrow> None
           | Some i \<Rightarrow> try_route (routes ! i) e req s))
   \<and> (\<forall>req. first_match routes req \<noteq> Some 33)
   \<and> (property payload ''alquilerId'' = JUndefined \<longrightarrow>
        serve e \<lparr>verb = POST, path = [''pagos''], body = payload\<rparr> s =
          Some (\<lparr>status = 400,
                 content = Json (mensaje ''Faltan datos obligatorios: alquilerId, monto, metodo, fecha_pago.'')\<rparr>,
                s))"
proof -
  have first: "routes ! 13 = On_collection POST ''pagos'' post_pagos"
    and second: "routes ! 33 = On_collection POST ''pagos'' post_pagos2"
    by (simp_all add: routes_def)
  have served: "serve e \<lparr>verb = POST, path = [''pagos''], body = payload\<rparr> s =
      Some (post_pagos e payload s)"
    using Create_Pagos [of e payload s] by (simp add: Create_def)
  have position: "first_match routes \<lparr>verb = POST, path = [''pagos''], body = payload\<rparr> = Some 13"
    by (simp add: routes_def)
  have never: "first_match routes req \<noteq> Some 33" for req
  proof
    assume served_by_second: "first_match routes req = Some 33"
    then have "matches (routes ! 33) req"
      by (rule first_match_matches)
    then have "matches (routes ! 13) req"
      by (simp add: first second)
    moreover have "\<not> matches (routes ! 13) req"
      using served_by_second by (rule first_match_is_first) simp
    ultimately show False
      by simp
  qed
  have through: "serve e req s =
      (case first_match routes req of None \<Rightarrow> None
       | Some i \<Rightarrow> try_route (routes ! i) e req s)" for req
    by (simp add: serve_def dispatch_first_match)
  have refused: "serve e \<lparr>verb = POST, path = [''pagos''], body = payload\<rparr> s =
      Some (\<lparr>status = 400,
             content = Json (mensaje ''Faltan datos obligatorios: alquilerId, monto, metodo, fecha_pago.'')\<rparr>,
            s)"
    if "property payload ''alquilerId'' = JUndefined"
    using that by (simp add: served post_pagos_def Let_def json_mensaje)
  show ?thesis
  proof (intro conjI allI impI)
    show "routes ! 13 = On_collection POST ''pagos'' post_pagos"
      by (rule first)
    show "routes ! 33 = On_collection POST ''pagos'' post_pagos2"
      by (rule second)
    show "first_match routes \<lparr>verb = POST, path = [''pagos''], body = payload\<rparr> = Some 13"
      by (rule position)
    show "serve e \<lparr>verb = POST, path = [''pagos''], body = payload\<rparr> s =
        Some (post_pagos e payload s)"
      by (rule served)
    show "serve e req s =
        (case first_match routes req of None \<Rightarrow> None
         | Some i \<Rightarrow> try_route (routes ! i) e req s)" for req
      by (rule through)
    show "first_match routes req \<noteq> Some 33" for req
      by (rule never)
    show "serve e \<lparr>verb = POST, path = [''pagos''], body = payload\<rparr> s =
        Some (\<lparr>status = 400,
               content = Json (mensaje ''Faltan datos obligatorios: alquilerId, monto, metodo, fecha_pago.'')\<rparr>,
              s)"
      if "property payload ''alquilerId'' = JUndefined"
      using that by (rule refused)
  qed
qed

theorem first_registration_serves_post_pagos_witness:
  "serve quiet \<lparr>verb = POST, path = [''pagos''], body = pago_de_usuario\<rparr> no_docs =
     Some (\<lparr>status = 400,
            content = Json (mensaje ''Faltan datos obligatorios: alquilerId, monto, metodo, fecha_pago.'')\<rparr>,
           no_docs)
   \<and> post_pagos2 quiet pago_de_usuario no_docs =
     (\<lparr>status = 201, content = Json ((''id'', JStr ''doc1'') # pago_de_usuario)\<rparr>,
      no_docs(''pagos'' := (no_docs ''pagos'')(''doc1'' \<mapsto> pago_de_usuario)))"
proof -
  have absent: "property pago_de_usuario ''alquilerId'' = JUndefined"
    by (simp add: pago_de_usuario_def property_def)
  have second: "post_pagos2 quiet pago_de_usuario no_docs =
     (\<lparr>status = 201, content = Json ((''id'', JStr ''doc1'') # pago_de_usuario)\<rparr>,
      no_docs(''pagos'' := (no_docs ''pagos'')(''doc1'' \<mapsto> pago_de_usuario)))"
    by (simp add: post_pagos2_def Let_def coll_add_def json_def defined_props_def quiet_def
        pago_de_usuario_def property_def)
  from first_registration_serves_post_pagos [of pago_de_usuario quiet no_docs] absent
  have "serve quiet \<lparr>verb = POST, path = [''pagos''], body = pago_de_usuario\<rparr> no_docs =
     Some (\<lparr>status = 400,
            content = Json (mensaje ''Faltan datos obligatorios: alquilerId, monto, metodo, fecha_pago.'')\<rparr>,
           no_docs)"
    by blast
  with second show ?thesis
    by blast
qed

end
